theory Spec2Isabelle
  imports Main
begin

section \<open>Errors\<close>

text \<open>
  Modelled from the spec: \<open>web.FieldError\<close>, a field of a request struct that failed
  validation, with the message.
\<close>

record FieldError =
  fe_Field :: string
  fe_Error :: string

text \<open>
  Why a token was refused or a caller turned away (the four failures of verification, the
  missing \<open>Authorization\<close> header, the missing role).
\<close>

datatype auth_failure =
    MissingToken | MalformedToken | UnknownKey | BadSignature | Expired | RoleMissing

text \<open>
  Go's \<open>error\<close> values. The sentinel errors of package \<open>restaurant\<close>, \<open>sql.ErrNoRows\<close> and
  \<open>conf.ErrHelpWanted\<close> are package variables compared by identity (\<open>switch err\<close>,
  \<open>err == sql.ErrNoRows\<close>); each is a constructor of its own, so an \<open>errors.New\<close> with the same
  text stays a different value. \<open>External\<close> is an error made by a library (driver, HTTP
  server, file system). \<open>ShutdownError msg\<close> is \<open>web.NewShutdownError(msg)\<close> and
  \<open>RequestError err status fields\<close> is \<open>web.NewRequestError(err, status)\<close>, whose \<open>err\<close> may
  be nil, with the field errors of a failed validation. A nil \<open>error\<close> is \<open>None\<close> of
  \<open>error option\<close>.
\<close>

datatype error =
    ErrNotFound
  | ErrInvalidID
  | ErrForbidden
  | SqlErrNoRows
  | ConfErrHelpWanted
  | ErrorsNew string
  | Wrapped error string
  | External string
  | ShutdownError string
  | RequestError "error option" nat "FieldError list"
  | AuthFailure auth_failure

text \<open>\<open>errors.Wrap(err, msg)\<close> and \<open>errors.Wrapf\<close> of pkg/errors: nil stays nil.\<close>

fun Wrap :: "error option \<Rightarrow> string \<Rightarrow> error option" where
  "Wrap None msg = None"
| "Wrap (Some e) msg = Some (Wrapped e msg)"

section \<open>The entry point: \<open>run\<close>\<close>

text \<open>The signals of package \<open>syscall\<close> that the code names (\<open>os.Interrupt\<close> is \<open>SIGINT\<close>), and the others.\<close>

datatype signal = SIGINT | SIGTERM | SIGSTOP | OtherSignal nat

text \<open>What the final \<open>select\<close> of \<open>run\<close> receives: a value of \<open>serverErrors\<close> or of \<open>shutdown\<close>.\<close>

datatype event = ServerError "error option" | Sig signal

text \<open>
  \<open>run\<close> calls into the configuration parser, the file system, the key parser, the
  authenticator's constructor, the database driver and the HTTP server. The record holds
  what each of these calls returns in one execution; \<open>run\<close> is then a function of it.
  Log output is not modelled.
\<close>

record run_env =
  confParse :: "error option"
  confUsage :: "error option"
  confString :: "error option"
  readFile :: "error option"
  parseRSAPrivateKeyFromPEM :: "error option"
  newAuthenticator :: "error option"
  databaseOpen :: "error option"
  received :: event
  apiShutdown :: "error option"
  apiClose :: "error option"

text \<open>
  The part of \<open>run\<close> before the server is started. \<open>Some r\<close>: \<open>run\<close> has returned \<open>r\<close>;
  \<open>None\<close>: the service is up and \<open>run\<close> reaches its \<open>select\<close>.
\<close>

definition startup :: "run_env \<Rightarrow> error option option" where
  "startup env =
     (case confParse env of
        Some err \<Rightarrow>
          (if err = ConfErrHelpWanted then
             (case confUsage env of
                Some err' \<Rightarrow> Some (Wrap (Some err') ''generating config usage'')
              | None \<Rightarrow> Some None)
           else Some (Wrap (Some err) ''parsing config''))
      | None \<Rightarrow>
     (case confString env of
        Some err \<Rightarrow> Some (Wrap (Some err) ''generating config for output'')
      | None \<Rightarrow>
     (case readFile env of
        Some err \<Rightarrow> Some (Wrap (Some err) ''reading auth private key'')
      | None \<Rightarrow>
     (case parseRSAPrivateKeyFromPEM env of
        Some err \<Rightarrow> Some (Wrap (Some err) ''constructing authenticator'')
      | None \<Rightarrow>
     (case newAuthenticator env of
        Some err \<Rightarrow> Some (Wrap (Some err) ''constructing authenticator'')
      | None \<Rightarrow>
     (case databaseOpen env of
        Some err \<Rightarrow> Some (Wrap (Some err) ''connecting to db'')
      | None \<Rightarrow> None))))))"

text \<open>
  The \<open>select\<close>. On a signal: \<open>api.Shutdown\<close>; if that fails, \<open>err\<close> is overwritten with the
  result of \<open>api.Close\<close>; then the \<open>switch\<close>, whose first case is the integrity signal.
\<close>

definition shutdown_select :: "run_env \<Rightarrow> error option" where
  "shutdown_select env =
     (case received env of
        ServerError err \<Rightarrow> Wrap err ''server error''
      | Sig sig \<Rightarrow>
          (let err = (case apiShutdown env of
                        Some _ \<Rightarrow> apiClose env
                      | None \<Rightarrow> None)
           in if sig = SIGSTOP then Some (ErrorsNew ''integrity issue caused shutdown'')
              else if err \<noteq> None then Wrap err ''could not stop server gracefully''
              else None))"

text \<open>\<open>run\<close>: the error returned to \<open>main\<close>, which exits with status 1 on a non-nil one.\<close>

definition run :: "run_env \<Rightarrow> error option" where
  "run env = (case startup env of Some r \<Rightarrow> r | None \<Rightarrow> shutdown_select env)"

text \<open>An execution in which every start-up step succeeds and a signal arrives.\<close>

definition env_signal :: "signal \<Rightarrow> error option \<Rightarrow> error option \<Rightarrow> run_env" where
  "env_signal sig sd cl =
     \<lparr> confParse = None, confUsage = None, confString = None, readFile = None,
       parseRSAPrivateKeyFromPEM = None, newAuthenticator = None, databaseOpen = None,
       received = Sig sig, apiShutdown = sd, apiClose = cl \<rparr>"

section \<open>Claims, tokens and the authenticator (package \<open>auth\<close>)\<close>

text \<open>
  Modelled from the spec: the type \<open>auth.Claims\<close> (its declaration is not among the sources;
  \<open>Subject\<close> is read by \<open>restaurant.Create\<close> and \<open>restaurant.Update\<close>). A subject identifier, the
  role names, and the standard temporal fields issued-at, expiry and not-before. Times
  are seconds since the epoch.
\<close>

record Claims =
  Subject :: string
  Roles :: "string list"
  IssuedAt :: int
  ExpiresAt :: int
  NotBefore :: int

text \<open>Modelled from the spec: the constant \<open>auth.RoleAdmin\<close>, the role name \<open>ADMIN\<close>.\<close>

definition RoleAdmin :: string where
  "RoleAdmin = ''ADMIN''"

text \<open>
  Modelled from the spec: the method \<open>Claims.HasRole\<close>, called by \<open>restaurant.Update\<close>: whether
  the role is present in the Claims' role set.
\<close>

definition Claims_HasRole :: "Claims \<Rightarrow> string \<Rightarrow> bool" where
  "Claims_HasRole c role = (role \<in> set (Roles c))"

text \<open>
  Modelled from the spec: the header of a token, which declares the signing algorithm and
  the key id.
\<close>

record header =
  Alg :: string
  Kid :: string

text \<open>
  Modelled from the spec: the token. Its header is as above, its payload carries the
  claims, and its signature is over both. A token is modelled by these three decoded
  parts; the compact textual form is not, and a text that cannot be parsed into them is
  \<open>Malformed\<close>.
\<close>

datatype token = Malformed string | Signed header Claims string

text \<open>
  The signature algorithm is a parameter: \<open>sign\<close> takes the private key and the signed
  content, \<open>check\<close> the public key, the content and the signature.
\<close>

record sigscheme =
  sign :: "string \<Rightarrow> header \<times> Claims \<Rightarrow> string"
  check :: "string \<Rightarrow> header \<times> Claims \<Rightarrow> string \<Rightarrow> bool"

text \<open>
  Modelled from the spec: the Authenticator (\<open>auth.NewAuthenticator(privateKey, keyID,
  algorithm, lookup)\<close> in \<open>run\<close>): one private key, the key id naming it, and the lookup
  from a key id to the public key.
\<close>

record Authenticator =
  privateKey :: string
  keyID :: string
  algorithm :: string
  pubKeyLookup :: "string \<Rightarrow> string option"

text \<open>
  Modelled from the spec: \<open>auth.NewSimpleKeyLookupFunc(kid, publicKey)\<close>, the lookup that
  knows one key id.
\<close>

definition NewSimpleKeyLookupFunc :: "string \<Rightarrow> string \<Rightarrow> string \<Rightarrow> string option" where
  "NewSimpleKeyLookupFunc activeKID publicKey kid =
     (if kid = activeKID then Some publicKey else None)"

text \<open>
  Modelled from the spec: \<open>issue(claims)\<close> (\<open>Authenticator.GenerateToken\<close>, called by the test
  harness). Signs the claims with the private key and puts the key id into the header.
\<close>

definition GenerateToken :: "sigscheme \<Rightarrow> Authenticator \<Rightarrow> Claims \<Rightarrow> token" where
  "GenerateToken sch a claims =
     (let h = \<lparr> Alg = algorithm a, Kid = keyID a \<rparr>
      in Signed h claims (sign sch (privateKey a) (h, claims)))"

text \<open>
  Modelled from the spec: \<open>verify(token)\<close> at the current time \<open>now\<close>. Parses the header to
  obtain the key id, resolves the public key through the lookup, checks the signature,
  then checks the window from not-before to expiry against the current time. It fails
  with malformed-token, unknown-key, bad-signature or expired, in this order.
\<close>

definition ParseClaims :: "sigscheme \<Rightarrow> Authenticator \<Rightarrow> int \<Rightarrow> token \<Rightarrow> error + Claims" where
  "ParseClaims sch a now tok =
     (case tok of
        Malformed _ \<Rightarrow> Inl (AuthFailure MalformedToken)
      | Signed h claims sg \<Rightarrow>
          (case pubKeyLookup a (Kid h) of
             None \<Rightarrow> Inl (AuthFailure UnknownKey)
           | Some pub \<Rightarrow>
               if \<not> check sch pub (h, claims) sg then Inl (AuthFailure BadSignature)
               else if \<not> (NotBefore claims \<le> now \<and> now \<le> ExpiresAt claims)
                 then Inl (AuthFailure Expired)
               else Inr claims))"

section \<open>The database and package \<open>restaurant\<close>\<close>

text \<open>
  The rows of the two tables. The struct declarations are not among the sources; the
  fields are the ones that \<open>Create\<close>, \<open>Update\<close>, \<open>CreateMenu\<close> and the tests read and write.
  \<open>UpdateRestaurant\<close> has pointer fields: nil is \<open>None\<close>.
\<close>

record Restaurant =
  ID :: string
  Name :: string
  Address :: string
  OwnerUserID :: string
  DateCreated :: int
  DateUpdated :: int

record NewRestaurant =
  nr_Name :: string
  nr_Address :: string

record UpdateRestaurant =
  up_Name :: "string option"
  up_Address :: "string option"

record Menu =
  m_ID :: string
  m_RestaurantID :: string
  m_Date :: int
  m_Menu :: string
  m_Votes :: nat

record NewMenu =
  nm_RestaurantID :: string
  nm_Date :: int
  nm_Menu :: string

text \<open>The SQL statements of the package, with their parameters.\<close>

datatype statement =
    SelectRestaurants
  | SelectRestaurant string
  | InsertRestaurant Restaurant
  | UpdateRestaurantSet string string string int
  | DeleteRestaurant string
  | InsertMenu Menu
  | SelectMenu string

text \<open>
  The database behind \<open>*sqlx.DB\<close>: the two tables, the statements sent so far, and for the
  n-th statement sent the error with which the driver refuses it, if any (connection lost,
  context cancelled, constraint violated). A refused statement changes no table. Rows are
  selected by equality of the id column with the parameter.
\<close>

record DB =
  restaurant_table :: "Restaurant list"
  menu_table :: "Menu list"
  executed :: "statement list"
  faults :: "nat \<Rightarrow> error option"

definition db_fault :: "DB \<Rightarrow> error option" where
  "db_fault db = faults db (length (executed db))"

definition db_sent :: "statement \<Rightarrow> DB \<Rightarrow> DB" where
  "db_sent st db = db\<lparr> executed := executed db @ [st] \<rparr>"

fun db_apply :: "statement \<Rightarrow> DB \<Rightarrow> DB" where
  "db_apply (InsertRestaurant r) db = db\<lparr> restaurant_table := restaurant_table db @ [r] \<rparr>"
| "db_apply (UpdateRestaurantSet rid n a t) db =
     db\<lparr> restaurant_table :=
           map (\<lambda>r. if ID r = rid then r\<lparr> Name := n, Address := a, DateUpdated := t \<rparr> else r)
             (restaurant_table db) \<rparr>"
| "db_apply (DeleteRestaurant rid) db =
     db\<lparr> restaurant_table := filter (\<lambda>r. ID r \<noteq> rid) (restaurant_table db) \<rparr>"
| "db_apply (InsertMenu m) db = db\<lparr> menu_table := menu_table db @ [m] \<rparr>"
| "db_apply SelectRestaurants db = db"
| "db_apply (SelectRestaurant rid) db = db"
| "db_apply (SelectMenu mid) db = db"

text \<open>\<open>db.ExecContext\<close>: the driver's error, or the statement's effect.\<close>

definition ExecContext :: "statement \<Rightarrow> DB \<Rightarrow> error option \<times> DB" where
  "ExecContext st db =
     (case db_fault db of
        Some e \<Rightarrow> (Some e, db_sent st db)
      | None \<Rightarrow> (None, db_apply st (db_sent st db)))"

text \<open>\<open>db.SelectContext\<close> of all restaurants.\<close>

definition SelectContext_restaurants :: "DB \<Rightarrow> (error + Restaurant list) \<times> DB" where
  "SelectContext_restaurants db =
     (case db_fault db of
        Some e \<Rightarrow> (Inl e, db_sent SelectRestaurants db)
      | None \<Rightarrow> (Inr (restaurant_table db), db_sent SelectRestaurants db))"

text \<open>\<open>db.GetContext\<close> of one row: the first row selected, or \<open>sql.ErrNoRows\<close>.\<close>

definition GetContext_restaurant :: "string \<Rightarrow> DB \<Rightarrow> (error + Restaurant) \<times> DB" where
  "GetContext_restaurant rid db =
     (case db_fault db of
        Some e \<Rightarrow> (Inl e, db_sent (SelectRestaurant rid) db)
      | None \<Rightarrow>
          (case find (\<lambda>r. ID r = rid) (restaurant_table db) of
             None \<Rightarrow> (Inl SqlErrNoRows, db_sent (SelectRestaurant rid) db)
           | Some r \<Rightarrow> (Inr r, db_sent (SelectRestaurant rid) db)))"

definition GetContext_menu :: "string \<Rightarrow> DB \<Rightarrow> (error + Menu) \<times> DB" where
  "GetContext_menu mid db =
     (case db_fault db of
        Some e \<Rightarrow> (Inl e, db_sent (SelectMenu mid) db)
      | None \<Rightarrow>
          (case find (\<lambda>m. m_ID m = mid) (menu_table db) of
             None \<Rightarrow> (Inl SqlErrNoRows, db_sent (SelectMenu mid) db)
           | Some m \<Rightarrow> (Inr m, db_sent (SelectMenu mid) db)))"

text \<open>
  The functions of package \<open>restaurant\<close>. \<open>uuid.Parse\<close> (of the library google/uuid) is the
  parameter \<open>parse\<close>: whether the text parses as a UUID. \<open>uuid.New().String()\<close> is the
  parameter \<open>newID\<close>. Times are instants, so \<open>now.UTC()\<close> is \<open>now\<close>. Tracing spans are left out.
\<close>

definition restaurant_List :: "DB \<Rightarrow> (error + Restaurant list) \<times> DB" where
  "restaurant_List db =
     (case SelectContext_restaurants db of
        (Inl err, db') \<Rightarrow> (Inl (Wrapped err ''selecting restaurants''), db')
      | (Inr restaurants, db') \<Rightarrow> (Inr restaurants, db'))"

definition restaurant_Create ::
  "string \<Rightarrow> DB \<Rightarrow> Claims \<Rightarrow> NewRestaurant \<Rightarrow> int \<Rightarrow> (error + Restaurant) \<times> DB" where
  "restaurant_Create newID db user nr now =
     (let r = \<lparr> ID = newID, Name = nr_Name nr, Address = nr_Address nr,
                OwnerUserID = Subject user, DateCreated = now, DateUpdated = now \<rparr>
      in case ExecContext (InsertRestaurant r) db of
           (Some err, db') \<Rightarrow> (Inl (Wrapped err ''inserting restaurant''), db')
         | (None, db') \<Rightarrow> (Inr r, db'))"

definition restaurant_Retrieve :: "(string \<Rightarrow> bool) \<Rightarrow> DB \<Rightarrow> string \<Rightarrow> (error + Restaurant) \<times> DB" where
  "restaurant_Retrieve parse db rid =
     (if \<not> parse rid then (Inl ErrInvalidID, db)
      else case GetContext_restaurant rid db of
             (Inl err, db') \<Rightarrow>
               (if err = SqlErrNoRows then (Inl ErrNotFound, db')
                else (Inl (Wrapped err ''selecting single restaurant''), db'))
           | (Inr r, db') \<Rightarrow> (Inr r, db'))"

definition restaurant_Update ::
  "(string \<Rightarrow> bool) \<Rightarrow> DB \<Rightarrow> Claims \<Rightarrow> string \<Rightarrow> UpdateRestaurant \<Rightarrow> int \<Rightarrow> error option \<times> DB" where
  "restaurant_Update parse db user rid update now =
     (case restaurant_Retrieve parse db rid of
        (Inl err, db1) \<Rightarrow> (Some err, db1)
      | (Inr r, db1) \<Rightarrow>
          (if \<not> Claims_HasRole user RoleAdmin \<and> OwnerUserID r \<noteq> Subject user
           then (Some ErrForbidden, db1)
           else
            (let r1 = (case up_Name update of Some n \<Rightarrow> r\<lparr> Name := n \<rparr> | None \<Rightarrow> r);
                 r2 = (case up_Address update of Some a \<Rightarrow> r1\<lparr> Address := a \<rparr> | None \<Rightarrow> r1);
                 r3 = r2\<lparr> DateUpdated := now \<rparr>
             in (case ExecContext (UpdateRestaurantSet rid (Name r3) (Address r3) (DateUpdated r3)) db1 of
                   (Some err, db2) \<Rightarrow> (Some (Wrapped err ''updating restaurant''), db2)
                 | (None, db2) \<Rightarrow> (None, db2)))))"

definition restaurant_Delete :: "(string \<Rightarrow> bool) \<Rightarrow> DB \<Rightarrow> string \<Rightarrow> error option \<times> DB" where
  "restaurant_Delete parse db rid =
     (if \<not> parse rid then (Some ErrInvalidID, db)
      else case ExecContext (DeleteRestaurant rid) db of
             (Some err, db') \<Rightarrow> (Some (Wrapped err (''deleting restaurant '' @ rid)), db')
           | (None, db') \<Rightarrow> (None, db'))"

definition restaurant_CreateMenu ::
  "string \<Rightarrow> DB \<Rightarrow> Claims \<Rightarrow> NewMenu \<Rightarrow> int \<Rightarrow> (error + Menu) \<times> DB" where
  "restaurant_CreateMenu newID db user nm now =
     (let m = \<lparr> m_ID = newID, m_RestaurantID = nm_RestaurantID nm, m_Date = now,
                m_Menu = nm_Menu nm, m_Votes = 0 \<rparr>
      in case ExecContext (InsertMenu m) db of
           (Some err, db') \<Rightarrow> (Inl (Wrapped err ''inserting menu''), db')
         | (None, db') \<Rightarrow> (Inr m, db'))"

definition restaurant_MenuRetrieve :: "(string \<Rightarrow> bool) \<Rightarrow> DB \<Rightarrow> string \<Rightarrow> (error + Menu) \<times> DB" where
  "restaurant_MenuRetrieve parse db mid =
     (if \<not> parse mid then (Inl ErrInvalidID, db)
      else case GetContext_menu mid db of
             (Inl err, db') \<Rightarrow>
               (if err = SqlErrNoRows then (Inl ErrNotFound, db')
                else (Inl (Wrapped err ''selecting single menu''), db'))
           | (Inr m, db') \<Rightarrow> (Inr m, db'))"

section \<open>Requests, contexts and the world a handler runs in (package \<open>web\<close>)\<close>

text \<open>A JSON document, as a request body holds it.\<close>

datatype json =
    JNull | JBool bool | JNumber int | JString string
  | JArray "json list" | JObject "(string \<times> json) list"

text \<open>The \<open>Authorization\<close> header, parsed: a bearer token, Basic credentials or anything else.\<close>

datatype authorization = Bearer token | Basic string string | OtherScheme string

text \<open>
  The fields of \<open>*http.Request\<close> that the code reads. \<open>Body\<close> is the JSON document of the
  body, \<open>None\<close> when the body is not one.
\<close>

record Request =
  Method :: string
  Path :: string
  RemoteAddr :: string
  Authorization :: "authorization option"
  Body :: "json option"

text \<open>
  Modelled from the spec: \<open>web.Values\<close>, the Request Context Values (the declaration is not
  among the sources; \<open>mid.Logger\<close> reads \<open>TraceID\<close>, \<open>StatusCode\<close> and \<open>Now\<close>): the trace
  identifier, the start time of the request and the recorded status code.
\<close>

record Values =
  TraceID :: string
  Now :: int
  StatusCode :: nat

text \<open>
  What the code reads from a \<open>context.Context\<close>: the pointer to the Values under
  \<open>web.KeyValues\<close> and the Claims under \<open>auth.Key\<close>, where \<open>None\<close> is a context without the
  key, and the names of the tracing spans opened on the way to this context.
\<close>

record Context =
  KeyValues :: "nat option"
  AuthKey :: "Claims option"
  Spans :: "string list"

definition StartSpan :: "Context \<Rightarrow> string \<Rightarrow> Context" where
  "StartSpan ctx name = ctx\<lparr> Spans := name # Spans ctx \<rparr>"

text \<open>
  Modelled from the spec: \<open>web.ErrorResponse\<close> and \<open>web.FieldError\<close>, the JSON body of an error
  response: the message, and for a validation error the fields with their messages.
\<close>

record ErrorResponse =
  er_Error :: string
  er_Fields :: "FieldError list"

text \<open>What a handler hands to \<open>web.Respond\<close> as the data of the response; \<open>PNil\<close> is nil.\<close>

datatype payload =
    PNil
  | PRestaurant Restaurant
  | PRestaurants "Restaurant list"
  | PMenu Menu
  | PErrorResponse ErrorResponse

text \<open>
  The line that \<open>mid.Logger\<close> prints with the format \<open>"%s : (%d) : %s %s -> %s (%s)"\<close>: its six
  arguments.
\<close>

record LogLine =
  ll_TraceID :: string
  ll_StatusCode :: nat
  ll_Method :: string
  ll_Path :: string
  ll_RemoteAddr :: string
  ll_Elapsed :: int

text \<open>
  Everything a handler can read and change: the \<open>web.Values\<close> objects by address, the
  clock, the log, the responses written to the \<open>http.ResponseWriter\<close> (status and data),
  the database, the counters of \<open>mid.Metrics\<close>, the shutdown channel, and the identifiers
  that \<open>uuid.New\<close> will produce.
\<close>

record World =
  cells :: "nat \<Rightarrow> Values"
  cells_used :: nat
  clock :: int
  logged :: "LogLine list"
  written :: "(nat \<times> payload) list"
  database :: DB
  requests :: nat
  errors :: nat
  shutdown :: "signal list"
  ids :: "nat \<Rightarrow> string"
  ids_used :: nat

text \<open>
  \<open>web.Handler\<close>: \<open>func(ctx, w, r, params) error\<close>. A handler of this model always returns;
  a handler that panics is outside it.
\<close>

type_synonym Handler =
  "Context \<Rightarrow> Request \<Rightarrow> (string \<rightharpoonup> string) \<Rightarrow> World \<Rightarrow> error option \<times> World"

text \<open>\<open>params[name]\<close> of a Go map: the empty string for a missing key.\<close>

definition param :: "(string \<rightharpoonup> string) \<Rightarrow> string \<Rightarrow> string" where
  "param params name = (case params name of Some v \<Rightarrow> v | None \<Rightarrow> [])"

text \<open>\<open>uuid.New().String()\<close>: the next identifier.\<close>

definition uuid_New :: "World \<Rightarrow> string \<times> World" where
  "uuid_New w = (ids w (ids_used w), w\<lparr> ids_used := Suc (ids_used w) \<rparr>)"

text \<open>
  The text of an error (\<open>err.Error()\<close>). The sentinel errors of package \<open>restaurant\<close> have the
  texts of the source; a wrapped error prefixes its message; a request error has the
  text of its inner error.
\<close>

fun error_message :: "error \<Rightarrow> string" where
  "error_message ErrNotFound = ''Restaurant not found''"
| "error_message ErrInvalidID = ''ID is not in its proper form''"
| "error_message ErrForbidden = ''Attempted action is not allowed''"
| "error_message SqlErrNoRows = ''sql: no rows in result set''"
| "error_message ConfErrHelpWanted = ''help wanted''"
| "error_message (ErrorsNew msg) = msg"
| "error_message (Wrapped e msg) = msg @ '': '' @ error_message e"
| "error_message (External msg) = msg"
| "error_message (ShutdownError msg) = msg"
| "error_message (RequestError (Some e) status flds) = error_message e"
| "error_message (RequestError None status flds) = []"
| "error_message (AuthFailure f) = ''unauthorized''"

text \<open>\<open>errors.Cause\<close>: the error under the wrapping.\<close>

fun Cause :: "error \<Rightarrow> error" where
  "Cause (Wrapped e msg) = Cause e"
| "Cause ErrNotFound = ErrNotFound"
| "Cause ErrInvalidID = ErrInvalidID"
| "Cause ErrForbidden = ErrForbidden"
| "Cause SqlErrNoRows = SqlErrNoRows"
| "Cause ConfErrHelpWanted = ConfErrHelpWanted"
| "Cause (ErrorsNew msg) = ErrorsNew msg"
| "Cause (External msg) = External msg"
| "Cause (ShutdownError msg) = ShutdownError msg"
| "Cause (RequestError e status flds) = RequestError e status flds"
| "Cause (AuthFailure f) = AuthFailure f"

text \<open>
  Modelled from the spec: whether an error is shutdown-triggering (\<open>web.IsShutdown\<close>).
\<close>

definition IsShutdown :: "error \<Rightarrow> bool" where
  "IsShutdown err = (case Cause err of ShutdownError _ \<Rightarrow> True | _ \<Rightarrow> False)"

text \<open>
  Modelled from the spec: \<open>web.Respond(ctx, w, data, statusCode)\<close>, the response-writing step.
  It records the status code into the Context Values and writes the status and the data
  to the response sink. Without Context Values it fails with a shutdown-triggering error,
  as every function of the sources that needs them does.
\<close>

definition Respond :: "Context \<Rightarrow> payload \<Rightarrow> nat \<Rightarrow> World \<Rightarrow> error option \<times> World" where
  "Respond ctx data statusCode w =
     (case KeyValues ctx of
        None \<Rightarrow> (Some (ShutdownError ''web value missing from context''), w)
      | Some p \<Rightarrow>
          (None, w\<lparr> cells := (cells w)(p := (cells w p)\<lparr> StatusCode := statusCode \<rparr>),
                    written := written w @ [(statusCode, data)] \<rparr>))"

text \<open>
  Modelled from the spec: the translation of an error into a response (\<open>web.RespondError\<close>).
  A request error, as the handlers make it with \<open>web.NewRequestError(err, status)\<close>, is
  answered with its status and the JSON body of its message and fields (validation 400,
  not found 404, forbidden 403, unauthorized 401); every other error with 500 and a
  generic message that leaks nothing of the error. The spec does not say what the message
  of a request error without an inner error is; it is the empty text here.
\<close>

definition RespondError :: "Context \<Rightarrow> error \<Rightarrow> World \<Rightarrow> error option \<times> World" where
  "RespondError ctx err w =
     (case Cause err of
        RequestError e status flds \<Rightarrow>
          Respond ctx (PErrorResponse \<lparr> er_Error = error_message (RequestError e status flds),
                                        er_Fields = flds \<rparr>) status w
      | _ \<Rightarrow>
          Respond ctx (PErrorResponse \<lparr> er_Error = ''Internal Server Error'', er_Fields = [] \<rparr>)
            500 w)"

text \<open>
  Modelled from the spec: the JSON text of an error response is
  \<open>{"error":"<message>"}\<close> for a simple error and
  \<open>{"error":"<message>","fields":[{"field":"<name>","error":"<message>"},...]}\<close> for a
  validation error. In a string the quote and the backslash are escaped.
\<close>

fun json_escape :: "string \<Rightarrow> string" where
  "json_escape [] = []"
| "json_escape (c # cs) =
     (if c = CHR 0x22 then [CHR 0x5C, CHR 0x22] @ json_escape cs
      else if c = CHR 0x5C then [CHR 0x5C, CHR 0x5C] @ json_escape cs
      else c # json_escape cs)"

text \<open>Modelled from the spec: a JSON string, between quotes.\<close>

definition json_string :: "string \<Rightarrow> string" where
  "json_string s = [CHR 0x22] @ json_escape s @ [CHR 0x22]"

text \<open>Modelled from the spec: one entry of \<open>fields\<close>, \<open>{"field":"<name>","error":"<message>"}\<close>.\<close>

definition json_FieldError :: "FieldError \<Rightarrow> string" where
  "json_FieldError f =
     ''{'' @ json_string ''field'' @ '':'' @ json_string (fe_Field f) @ '','' @
     json_string ''error'' @ '':'' @ json_string (fe_Error f) @ ''}''"

text \<open>The elements of a JSON array, separated by commas.\<close>

fun json_join :: "string list \<Rightarrow> string" where
  "json_join [] = []"
| "json_join [x] = x"
| "json_join (x # y # ys) = x @ '','' @ json_join (y # ys)"

text \<open>
  Modelled from the spec: the JSON text of \<open>web.ErrorResponse\<close>; \<open>fields\<close> is left out when
  there are none.
\<close>

definition json_ErrorResponse :: "ErrorResponse \<Rightarrow> string" where
  "json_ErrorResponse er =
     ''{'' @ json_string ''error'' @ '':'' @ json_string (er_Error er) @
     (if er_Fields er = [] then []
      else '','' @ json_string ''fields'' @ '':['' @ json_join (map json_FieldError (er_Fields er)) @ '']'') @
     ''}''"

text \<open>
  Modelled from the spec: \<open>web.Decode(r, &val)\<close>. The body is decoded into the value and the
  value is validated; a body that cannot be decoded and a value with invalid fields are
  both request errors with status 400, the second with the message
  \<open>field validation error\<close> and one entry for each invalid field. How a struct is read from
  the JSON document and which fields it requires are the two parameters.
\<close>

definition Decode ::
  "(json \<Rightarrow> 'a option) \<Rightarrow> ('a \<Rightarrow> FieldError list) \<Rightarrow> Request \<Rightarrow> error + 'a" where
  "Decode unmarshal validate r =
     (case Body r of
        None \<Rightarrow> Inl (RequestError (Some (External ''invalid JSON'')) 400 [])
      | Some doc \<Rightarrow>
          (case unmarshal doc of
             None \<Rightarrow> Inl (RequestError (Some (External ''cannot unmarshal'')) 400 [])
           | Some val \<Rightarrow>
               (case validate val of
                  [] \<Rightarrow> Inr val
                | f # fs \<Rightarrow>
                    Inl (RequestError (Some (ErrorsNew ''field validation error'')) 400 (f # fs)))))"

text \<open>
  Modelled from the spec: the struct \<open>restaurant.NewRestaurant\<close> as \<open>web.Decode\<close> sees it, with
  the JSON fields \<open>name\<close> and \<open>address\<close>, both required. A document is read into the struct
  field by field, starting from the zero value; a field of another name or a value that
  is not a string is refused. A required field is invalid when it is the empty string,
  with the message \<open><field> is a required field\<close>.
\<close>

fun unmarshal_NewRestaurant_fields :: "(string \<times> json) list \<Rightarrow> NewRestaurant \<Rightarrow> NewRestaurant option" where
  "unmarshal_NewRestaurant_fields [] nr = Some nr"
| "unmarshal_NewRestaurant_fields ((k, v) # kvs) nr =
     (if k = ''name'' then
        (case v of
           JString s \<Rightarrow> unmarshal_NewRestaurant_fields kvs (nr\<lparr> nr_Name := s \<rparr>)
         | JNull \<Rightarrow> unmarshal_NewRestaurant_fields kvs nr
         | _ \<Rightarrow> None)
      else if k = ''address'' then
        (case v of
           JString s \<Rightarrow> unmarshal_NewRestaurant_fields kvs (nr\<lparr> nr_Address := s \<rparr>)
         | JNull \<Rightarrow> unmarshal_NewRestaurant_fields kvs nr
         | _ \<Rightarrow> None)
      else None)"

text \<open>
  Modelled from the spec: a \<open>NewRestaurant\<close> is read from a JSON object; any other document
  is refused.
\<close>

definition unmarshal_NewRestaurant :: "json \<Rightarrow> NewRestaurant option" where
  "unmarshal_NewRestaurant doc =
     (case doc of
        JObject kvs \<Rightarrow> unmarshal_NewRestaurant_fields kvs \<lparr> nr_Name = [], nr_Address = [] \<rparr>
      | _ \<Rightarrow> None)"

text \<open>Modelled from the spec: the field error of a required field that is empty.\<close>

definition required :: "string \<Rightarrow> string \<Rightarrow> FieldError list" where
  "required field v =
     (if v = [] then [\<lparr> fe_Field = field, fe_Error = field @ '' is a required field'' \<rparr>] else [])"

text \<open>Modelled from the spec: \<open>name\<close> and \<open>address\<close> are required, in the order of the struct.\<close>

definition validate_NewRestaurant :: "NewRestaurant \<Rightarrow> FieldError list" where
  "validate_NewRestaurant nr = required ''name'' (nr_Name nr) @ required ''address'' (nr_Address nr)"

text \<open>Modelled from the spec: \<open>web.Decode(r, &nr)\<close> for a \<open>restaurant.NewRestaurant\<close>.\<close>

definition Decode_NewRestaurant :: "Request \<Rightarrow> error + NewRestaurant" where
  "Decode_NewRestaurant = Decode unmarshal_NewRestaurant validate_NewRestaurant"

section \<open>Middleware (package \<open>mid\<close>)\<close>

text \<open>
  \<open>mid.Logger\<close>. The span is opened first; without Context Values the shutdown error is
  returned at once. Otherwise the inner handler \<open>before\<close> runs, and after it has returned
  the line is printed from what the Values hold then (they are read through the pointer)
  and from the time elapsed since \<open>v.Now\<close>.
\<close>

definition mid_Logger :: "Handler \<Rightarrow> Handler" where
  "mid_Logger before ctx r params w =
     (let ctx1 = StartSpan ctx ''internal.mid.Logger''
      in case KeyValues ctx1 of
           None \<Rightarrow> (Some (ShutdownError ''web value missing from context''), w)
         | Some p \<Rightarrow>
             (case before ctx1 r params w of
                (err, w1) \<Rightarrow>
                  (err, w1\<lparr> logged := logged w1 @
                          [\<lparr> ll_TraceID = TraceID (cells w1 p),
                             ll_StatusCode = StatusCode (cells w1 p),
                             ll_Method = Method r, ll_Path = Path r,
                             ll_RemoteAddr = RemoteAddr r,
                             ll_Elapsed = clock w1 - Now (cells w1 p) \<rparr>] \<rparr>)))"

text \<open>
  Modelled from the spec: \<open>mid.Errors\<close>, the error translation. An error of the handler is
  answered through \<open>RespondError\<close>; a shutdown-triggering error is propagated upward, any
  other error ends here.
\<close>

definition mid_Errors :: "Handler \<Rightarrow> Handler" where
  "mid_Errors before ctx r params w =
     (case before ctx r params w of
        (None, w1) \<Rightarrow> (None, w1)
      | (Some err, w1) \<Rightarrow>
          (case RespondError ctx err w1 of
             (Some err2, w2) \<Rightarrow> (Some err2, w2)
           | (None, w2) \<Rightarrow> if IsShutdown err then (Some err, w2) else (None, w2)))"

text \<open>
  Modelled from the spec: \<open>mid.Metrics\<close>. Counts the request, and the error if the handler
  returned one.
\<close>

definition mid_Metrics :: "Handler \<Rightarrow> Handler" where
  "mid_Metrics before ctx r params w =
     (case before ctx r params w of
        (err, w1) \<Rightarrow>
          (err, w1\<lparr> requests := Suc (requests w1),
                     errors := (if err = None then errors w1 else Suc (errors w1)) \<rparr>))"

text \<open>
  Modelled from the spec: \<open>mid.Panics\<close>. It turns a runtime fault of the inner handler into
  an error; the handlers of this model always return, so it hands their result on.
\<close>

definition mid_Panics :: "Handler \<Rightarrow> Handler" where
  "mid_Panics after ctx r params w = after ctx r params w"

text \<open>
  Modelled from the spec: \<open>mid.Authenticate(authenticator)\<close>. It requires an \<open>Authorization\<close>
  header carrying a bearer token, verifies the token at the current time, and on success
  stores the Claims into the context for the handler. A missing header, another scheme
  and a token that fails verification are all the unauthorized error (401).
\<close>

definition mid_Authenticate :: "sigscheme \<Rightarrow> Authenticator \<Rightarrow> Handler \<Rightarrow> Handler" where
  "mid_Authenticate sch a after ctx r params w =
     (case Authorization r of
        Some (Bearer tok) \<Rightarrow>
          (case ParseClaims sch a (clock w) tok of
             Inl err \<Rightarrow> (Some (RequestError (Some err) 401 []), w)
           | Inr claims \<Rightarrow> after (ctx\<lparr> AuthKey := Some claims \<rparr>) r params w)
      | _ \<Rightarrow> (Some (RequestError (Some (AuthFailure MissingToken)) 401 []), w))"

text \<open>
  Modelled from the spec: \<open>mid.HasRole(role)\<close>. It reads the Claims stored by Authenticate,
  failing with a shutdown-triggering error if they are absent; the caller without the
  role is forbidden (403), the caller with it proceeds unchanged.
\<close>

definition mid_HasRole :: "string \<Rightarrow> Handler \<Rightarrow> Handler" where
  "mid_HasRole role after ctx r params w =
     (case AuthKey ctx of
        None \<Rightarrow> (Some (ShutdownError ''claims missing from context''), w)
      | Some claims \<Rightarrow>
          if \<not> Claims_HasRole claims role
          then (Some (RequestError (Some (AuthFailure RoleMissing)) 403 []), w)
          else after ctx r params w)"

section \<open>The handlers (package \<open>handlers\<close>)\<close>

text \<open>
  The handlers of \<open>Restaurant\<close> and \<open>Menu\<close> that \<open>API\<close> registers. \<open>res.db\<close> is the database of the
  world. The decoders of \<open>web.Decode\<close> for each request struct are parameters. In the
  messages of \<open>errors.Wrapf\<close> the struct printed with \<open>%+v\<close> is left out.
\<close>

definition Restaurant_List :: Handler where
  "Restaurant_List ctx r params w =
     (let ctx1 = StartSpan ctx ''handlers.Restaurant.List''
      in case restaurant_List (database w) of
           (Inl err, db') \<Rightarrow> (Some err, w\<lparr> database := db' \<rparr>)
         | (Inr restaurants, db') \<Rightarrow>
             Respond ctx1 (PRestaurants restaurants) 200 (w\<lparr> database := db' \<rparr>))"

definition Restaurant_Retrieve :: "(string \<Rightarrow> bool) \<Rightarrow> Handler" where
  "Restaurant_Retrieve parse ctx r params w =
     (let ctx1 = StartSpan ctx ''handlers.Restaurant.Retrieve''
      in case restaurant_Retrieve parse (database w) (param params ''id'') of
           (Inl err, db') \<Rightarrow>
             (if err = ErrInvalidID then (Some (RequestError (Some err) 400 []), w\<lparr> database := db' \<rparr>)
              else if err = ErrNotFound then (Some (RequestError (Some err) 404 []), w\<lparr> database := db' \<rparr>)
              else (Some (Wrapped err (''ID: '' @ param params ''id'')), w\<lparr> database := db' \<rparr>))
         | (Inr restRetrieved, db') \<Rightarrow>
             Respond ctx1 (PRestaurant restRetrieved) 200 (w\<lparr> database := db' \<rparr>))"

definition Restaurant_Create :: "(Request \<Rightarrow> error + NewRestaurant) \<Rightarrow> Handler" where
  "Restaurant_Create decode ctx r params w =
     (let ctx1 = StartSpan ctx ''handlers.Restaurant.Create''
      in case AuthKey ctx1 of
           None \<Rightarrow> (Some (ShutdownError ''claims missing from context''), w)
         | Some claims \<Rightarrow>
     (case KeyValues ctx1 of
           None \<Rightarrow> (Some (ShutdownError ''web value missing from context''), w)
         | Some p \<Rightarrow>
     (case decode r of
           Inl err \<Rightarrow> (Some (Wrapped err ''decoding new restaurant''), w)
         | Inr nr \<Rightarrow>
     (case uuid_New w of
           (newID, w1) \<Rightarrow>
     (case restaurant_Create newID (database w1) claims nr (Now (cells w1 p)) of
           (Inl err, db') \<Rightarrow>
             (Some (Wrapped err ''creating new restaurant: ''), w1\<lparr> database := db' \<rparr>)
         | (Inr restResult, db') \<Rightarrow>
             Respond ctx1 (PRestaurant restResult) 201 (w1\<lparr> database := db' \<rparr>))))))"

definition Restaurant_Update ::
  "(string \<Rightarrow> bool) \<Rightarrow> (Request \<Rightarrow> error + UpdateRestaurant) \<Rightarrow> Handler" where
  "Restaurant_Update parse decode ctx r params w =
     (let ctx1 = StartSpan ctx ''handlers.Restaurant.Update''
      in case AuthKey ctx1 of
           None \<Rightarrow> (Some (ShutdownError ''claims missing from context''), w)
         | Some claims \<Rightarrow>
     (case KeyValues ctx1 of
           None \<Rightarrow> (Some (ShutdownError ''web value missing from context''), w)
         | Some p \<Rightarrow>
     (case decode r of
           Inl err \<Rightarrow> (Some (Wrapped err []), w)
         | Inr up \<Rightarrow>
     (case restaurant_Update parse (database w) claims (param params ''id'') up (Now (cells w p)) of
           (Some err, db') \<Rightarrow>
             (if err = ErrInvalidID then (Some (RequestError (Some err) 400 []), w\<lparr> database := db' \<rparr>)
              else if err = ErrNotFound then (Some (RequestError (Some err) 404 []), w\<lparr> database := db' \<rparr>)
              else if err = ErrForbidden then (Some (RequestError (Some err) 403 []), w\<lparr> database := db' \<rparr>)
              else (Some (Wrapped err (''updating restaurant '' @ [CHR 0x22] @ param params ''id'' @ [CHR 0x22] @ '': '')),
                    w\<lparr> database := db' \<rparr>))
         | (None, db') \<Rightarrow> Respond ctx1 PNil 204 (w\<lparr> database := db' \<rparr>)))))"

definition Restaurant_Delete :: "(string \<Rightarrow> bool) \<Rightarrow> Handler" where
  "Restaurant_Delete parse ctx r params w =
     (let ctx1 = StartSpan ctx ''handlers.Restaurant.Delete''
      in case restaurant_Delete parse (database w) (param params ''id'') of
           (Some err, db') \<Rightarrow>
             (if err = ErrInvalidID then (Some (RequestError (Some err) 400 []), w\<lparr> database := db' \<rparr>)
              else (Some (Wrapped err (''Id: '' @ param params ''id'')), w\<lparr> database := db' \<rparr>))
         | (None, db') \<Rightarrow> Respond ctx1 PNil 204 (w\<lparr> database := db' \<rparr>))"

text \<open>
  \<open>Menu.RetrieveMenu\<close> and \<open>Menu.RetrieveVotes\<close> have the same body; the message of the wrapped
  error reads \<open>params["id"]\<close>, which the route does not bind.
\<close>

definition Menu_RetrieveMenu :: "(string \<Rightarrow> bool) \<Rightarrow> Handler" where
  "Menu_RetrieveMenu parse ctx r params w =
     (let ctx1 = StartSpan ctx ''handlers.Menu.Retrieve''
      in case restaurant_MenuRetrieve parse (database w) (param params ''restaurantId'') of
           (Inl err, db') \<Rightarrow>
             (if err = ErrInvalidID then (Some (RequestError (Some err) 400 []), w\<lparr> database := db' \<rparr>)
              else if err = ErrNotFound then (Some (RequestError (Some err) 404 []), w\<lparr> database := db' \<rparr>)
              else (Some (Wrapped err (''ID: '' @ param params ''id'')), w\<lparr> database := db' \<rparr>))
         | (Inr menuRetrieved, db') \<Rightarrow>
             Respond ctx1 (PMenu menuRetrieved) 200 (w\<lparr> database := db' \<rparr>))"

definition Menu_RetrieveVotes :: "(string \<Rightarrow> bool) \<Rightarrow> Handler" where
  "Menu_RetrieveVotes parse ctx r params w =
     (let ctx1 = StartSpan ctx ''handlers.Menu.Retrieve''
      in case restaurant_MenuRetrieve parse (database w) (param params ''restaurantId'') of
           (Inl err, db') \<Rightarrow>
             (if err = ErrInvalidID then (Some (RequestError (Some err) 400 []), w\<lparr> database := db' \<rparr>)
              else if err = ErrNotFound then (Some (RequestError (Some err) 404 []), w\<lparr> database := db' \<rparr>)
              else (Some (Wrapped err (''ID: '' @ param params ''id'')), w\<lparr> database := db' \<rparr>))
         | (Inr menuRetrieved, db') \<Rightarrow>
             Respond ctx1 (PMenu menuRetrieved) 200 (w\<lparr> database := db' \<rparr>))"

text \<open>
  \<open>Menu.CreateMenu\<close>. The checks in the order of the source: Claims, Values, the decoded
  body, the restaurant id of the body against the one of the path (\<open>ErrInvalidID\<close> itself
  is returned, not a request error), the restaurant, its owner against the caller's
  subject. Where the owner differs, \<open>web.NewRequestError(err, http.StatusForbidden)\<close> is
  called with the \<open>err\<close> of the retrieval, which is nil at that point. The final test
  \<open>restaurantRes == nil\<close> cannot hold after a retrieval without error.
\<close>

definition Menu_CreateMenu ::
  "(string \<Rightarrow> bool) \<Rightarrow> (Request \<Rightarrow> error + NewMenu) \<Rightarrow> Handler" where
  "Menu_CreateMenu parse decode ctx r params w =
     (let ctx1 = StartSpan ctx ''handlers.Menu.CreateMenu'';
          restaurantId = param params ''restaurantId''
      in case AuthKey ctx1 of
           None \<Rightarrow> (Some (ShutdownError ''claims missing from context''), w)
         | Some claims \<Rightarrow>
     (case KeyValues ctx1 of
           None \<Rightarrow> (Some (ShutdownError ''web value missing from context''), w)
         | Some p \<Rightarrow>
     (case decode r of
           Inl err \<Rightarrow> (Some (Wrapped err ''decoding new menu''), w)
         | Inr nm \<Rightarrow>
     (if nm_RestaurantID nm \<noteq> restaurantId then (Some ErrInvalidID, w)
      else
     (case restaurant_Retrieve parse (database w) restaurantId of
           (Inl err, db') \<Rightarrow>
             (if err = ErrInvalidID then (Some (RequestError (Some err) 400 []), w\<lparr> database := db' \<rparr>)
              else if err = ErrNotFound then (Some (RequestError (Some err) 404 []), w\<lparr> database := db' \<rparr>)
              else if err = ErrForbidden then (Some (RequestError (Some err) 403 []), w\<lparr> database := db' \<rparr>)
              else (Some (Wrapped err (''retrieving restaurant id: '' @ restaurantId)),
                    w\<lparr> database := db' \<rparr>))
         | (Inr restaurantRes, db') \<Rightarrow>
     (if OwnerUserID restaurantRes \<noteq> Subject claims
      then (Some (RequestError None 403 []), w\<lparr> database := db' \<rparr>)
      else
     (case uuid_New (w\<lparr> database := db' \<rparr>) of
           (newID, w1) \<Rightarrow>
     (case restaurant_CreateMenu newID (database w1) claims nm (Now (cells w1 p)) of
           (Inl err, db2) \<Rightarrow> (Some (Wrapped err ''creating new menu: ''), w1\<lparr> database := db2 \<rparr>)
         | (Inr restResult, db2) \<Rightarrow>
             Respond ctx1 (PMenu restResult) 201 (w1\<lparr> database := db2 \<rparr>)))))))))"

section \<open>The application and its routes\<close>

text \<open>
  The handlers that \<open>API\<close> registers, by name, and the middleware values it passes. The
  handlers of \<open>Check\<close> and \<open>User\<close> are not among the sources.
\<close>

datatype endpoint =
    CheckHealth | UserList | UserCreate | UserToken
  | RestaurantList | RestaurantCreate | RestaurantRetrieve | RestaurantUpdate | RestaurantDelete
  | MenuRetrieveMenu | MenuRetrieveVotes | MenuCreateMenu

datatype middleware =
    Logger | Errors | Metrics | Panics
  | Authenticate Authenticator
  | HasRole string

text \<open>
  Modelled from the spec: an entry of the route table, a method and a path pattern with
  the handler and the route's own middlewares, in the order in which they were given.
\<close>

record Route =
  rt_method :: string
  rt_path :: string
  rt_handler :: endpoint
  rt_mw :: "middleware list"

text \<open>
  Modelled from the spec: \<open>web.App\<close>. The application owns the global middlewares and the
  route table.
\<close>

record App =
  app_mw :: "middleware list"
  app_routes :: "Route list"

text \<open>Modelled from the spec: \<open>web.NewApp(shutdown, mw...)\<close>, an application without routes.\<close>

definition NewApp :: "middleware list \<Rightarrow> App" where
  "NewApp mw = \<lparr> app_mw = mw, app_routes = [] \<rparr>"

text \<open>
  Modelled from the spec: \<open>App.Handle(method, path, handler, mw...)\<close>, which registers a route.
\<close>

definition Handle :: "App \<Rightarrow> string \<Rightarrow> string \<Rightarrow> endpoint \<Rightarrow> middleware list \<Rightarrow> App" where
  "Handle app method path handler mw =
     app\<lparr> app_routes := app_routes app @
            [\<lparr> rt_method = method, rt_path = path, rt_handler = handler, rt_mw = mw \<rparr>] \<rparr>"

text \<open>
  \<open>handlers.API\<close>. The logger, the database and the shutdown channel that it passes on are
  parts of the world of this model.
\<close>

definition API :: "string \<Rightarrow> Authenticator \<Rightarrow> App" where
  "API build authenticator =
     (let app = NewApp [Logger, Errors, Metrics, Panics];
          app = Handle app ''GET'' ''/v1/health'' CheckHealth [];
          app = Handle app ''GET'' ''/v1/users'' UserList
                  [Authenticate authenticator, HasRole RoleAdmin];
          app = Handle app ''POST'' ''/v1/users'' UserCreate
                  [Authenticate authenticator, HasRole RoleAdmin];
          app = Handle app ''GET'' ''/v1/users/token'' UserToken [];
          app = Handle app ''GET'' ''/v1/restaurant'' RestaurantList [Authenticate authenticator];
          app = Handle app ''POST'' ''/v1/restaurant'' RestaurantCreate [Authenticate authenticator];
          app = Handle app ''GET'' ''/v1/restaurant/:id'' RestaurantRetrieve
                  [Authenticate authenticator];
          app = Handle app ''PUT'' ''/v1/restaurant/:id'' RestaurantUpdate
                  [Authenticate authenticator];
          app = Handle app ''DELETE'' ''/v1/restaurant/:id'' RestaurantDelete
                  [Authenticate authenticator];
          app = Handle app ''GET'' ''/v1/restaurant/:restaurantId/menu'' MenuRetrieveMenu
                  [Authenticate authenticator];
          app = Handle app ''GET'' ''/v1/restaurant/:restaurantId/votes'' MenuRetrieveVotes
                  [Authenticate authenticator];
          app = Handle app ''POST'' ''/v1/restaurant/:restaurantId/menu'' MenuCreateMenu
                  [Authenticate authenticator, HasRole RoleAdmin]
      in app)"

text \<open>
  What the application needs to run a route: the signature scheme of the tokens,
  \<open>uuid.Parse\<close>, the decoders of the request structs whose declarations are not among the
  sources, and the handlers that are not among the sources.
\<close>

record Deps =
  scheme :: sigscheme
  uuidParse :: "string \<Rightarrow> bool"
  decodeUpdateRestaurant :: "Request \<Rightarrow> error + UpdateRestaurant"
  decodeNewMenu :: "Request \<Rightarrow> error + NewMenu"
  otherHandler :: "endpoint \<Rightarrow> Handler"

fun handler_of :: "Deps \<Rightarrow> endpoint \<Rightarrow> Handler" where
  "handler_of d RestaurantList = Restaurant_List"
| "handler_of d RestaurantCreate = Restaurant_Create Decode_NewRestaurant"
| "handler_of d RestaurantRetrieve = Restaurant_Retrieve (uuidParse d)"
| "handler_of d RestaurantUpdate = Restaurant_Update (uuidParse d) (decodeUpdateRestaurant d)"
| "handler_of d RestaurantDelete = Restaurant_Delete (uuidParse d)"
| "handler_of d MenuRetrieveMenu = Menu_RetrieveMenu (uuidParse d)"
| "handler_of d MenuRetrieveVotes = Menu_RetrieveVotes (uuidParse d)"
| "handler_of d MenuCreateMenu = Menu_CreateMenu (uuidParse d) (decodeNewMenu d)"
| "handler_of d CheckHealth = otherHandler d CheckHealth"
| "handler_of d UserList = otherHandler d UserList"
| "handler_of d UserCreate = otherHandler d UserCreate"
| "handler_of d UserToken = otherHandler d UserToken"

fun middleware_of :: "Deps \<Rightarrow> middleware \<Rightarrow> Handler \<Rightarrow> Handler" where
  "middleware_of d Logger = mid_Logger"
| "middleware_of d Errors = mid_Errors"
| "middleware_of d Metrics = mid_Metrics"
| "middleware_of d Panics = mid_Panics"
| "middleware_of d (Authenticate a) = mid_Authenticate (scheme d) a"
| "middleware_of d (HasRole role) = mid_HasRole role"

text \<open>
  Modelled from the spec: the composition of middlewares around a handler. The route's
  middlewares are wrapped around the handler, and the global ones around the result:
  logging outermost, then error translation, then metrics, then panic recovery, then the
  route's authentication, then its role check, then the handler. The first middleware of
  a list is the outermost.
\<close>

definition wrapMiddleware :: "(Handler \<Rightarrow> Handler) list \<Rightarrow> Handler \<Rightarrow> Handler" where
  "wrapMiddleware mw handler = foldr (\<lambda>m h. m h) mw handler"

text \<open>
  Modelled from the spec: the fully wrapped handler of a route, the global middlewares
  around the route's own around the handler.
\<close>

definition route_handler :: "Deps \<Rightarrow> App \<Rightarrow> Route \<Rightarrow> Handler" where
  "route_handler d app rt =
     wrapMiddleware (map (middleware_of d) (app_mw app))
       (wrapMiddleware (map (middleware_of d) (rt_mw rt)) (handler_of d (rt_handler rt)))"

text \<open>
  Modelled from the spec: the Context Values that the Router constructs for a request, a
  fresh trace id and the start time now, in a new \<open>web.Values\<close> object whose address is
  returned.
\<close>

definition new_values :: "World \<Rightarrow> nat \<times> World" where
  "new_values w =
     (case uuid_New w of
        (traceID, w1) \<Rightarrow>
          (cells_used w1,
           w1\<lparr> cells := (cells w1)(cells_used w1 :=
                    \<lparr> TraceID = traceID, Now = clock w1, StatusCode = 0 \<rparr>),
                cells_used := Suc (cells_used w1) \<rparr>))"

text \<open>
  Modelled from the spec: dispatch, once the path of a request has been matched against
  the patterns and the parameters extracted (the matching of the path text is not
  modelled). Without a route for the method and the pattern the answer is not found and
  no handler runs. With one, the Context Values are constructed and the wrapped handler
  is invoked; a shutdown-triggering error that comes back is forwarded to the shutdown
  channel as the integrity signal.
\<close>

definition dispatch ::
  "Deps \<Rightarrow> App \<Rightarrow> string \<Rightarrow> (string \<rightharpoonup> string) \<Rightarrow> Request \<Rightarrow> World \<Rightarrow> World" where
  "dispatch d app pattern params r w =
     (case find (\<lambda>rt. rt_method rt = Method r \<and> rt_path rt = pattern) (app_routes app) of
        None \<Rightarrow> w\<lparr> written := written w @ [(404, PNil)] \<rparr>
      | Some rt \<Rightarrow>
          (case new_values w of
             (p, w1) \<Rightarrow>
               (case route_handler d app rt \<lparr> KeyValues = Some p, AuthKey = None, Spans = [] \<rparr>
                       r params w1 of
                  (Some err, w2) \<Rightarrow>
                    if IsShutdown err then w2\<lparr> shutdown := shutdown w2 @ [SIGSTOP] \<rparr> else w2
                | (None, w2) \<Rightarrow> w2)))"

section \<open>Values to evaluate with\<close>

text \<open>
  A signature scheme and an authenticator to evaluate with: the signature is the key
  followed by the key id and the subject it signs, and the verifying key is the signing key.
\<close>

definition demo_scheme :: sigscheme where
  "demo_scheme =
     \<lparr> sign = (\<lambda>k m. k @ Kid (fst m) @ Subject (snd m)),
       check = (\<lambda>k m sg. sg = k @ Kid (fst m) @ Subject (snd m)) \<rparr>"

definition demo_authenticator :: Authenticator where
  "demo_authenticator =
     \<lparr> privateKey = ''key'', keyID = ''1'', algorithm = ''RS256'',
       pubKeyLookup = NewSimpleKeyLookupFunc ''1'' ''key'' \<rparr>"

definition demo_claims :: Claims where
  "demo_claims =
     \<lparr> Subject = ''5cf37266-3473-4006-984f-9325122678b7'', Roles = [''ADMIN'', ''USER''],
       IssuedAt = 100, ExpiresAt = 200, NotBefore = 100 \<rparr>"

text \<open>
  A database with one restaurant, a world at time 150 holding it, a token for
  \<open>demo_claims\<close> (who hold the role \<open>ADMIN\<close> and do not own the restaurant), and requests that
  carry the token.
\<close>

definition demo_restaurant :: Restaurant where
  "demo_restaurant =
     \<lparr> ID = ''a224a8d6-3f9e-4b11-9900-e81a25d80702'', Name = ''Bistro'', Address = ''1 Main St'',
       OwnerUserID = ''45b5fbd3-755f-4379-8f07-a58d4a30fa2f'', DateCreated = 10, DateUpdated = 10 \<rparr>"

definition demo_db :: DB where
  "demo_db =
     \<lparr> restaurant_table = [demo_restaurant], menu_table = [], executed = [],
       faults = (\<lambda>n. None) \<rparr>"

definition demo_world :: World where
  "demo_world =
     \<lparr> cells = (\<lambda>p. \<lparr> TraceID = [], Now = 0, StatusCode = 0 \<rparr>), cells_used = 0, clock = 150,
       logged = [], written = [], database = demo_db, requests = 0, errors = 0,
       shutdown = [], ids = (\<lambda>n. ''0d2b4c7a-53a5-4a0a-93c2-75ca1a1a7a6c''), ids_used = 0 \<rparr>"

definition demo_token :: token where
  "demo_token = GenerateToken demo_scheme demo_authenticator demo_claims"

definition demo_request :: "string \<Rightarrow> string \<Rightarrow> json option \<Rightarrow> Request" where
  "demo_request method path body =
     \<lparr> Method = method, Path = path, RemoteAddr = ''192.0.2.7:40312'',
       Authorization = Some (Bearer demo_token), Body = body \<rparr>"

definition demo_newmenu :: "string \<Rightarrow> NewMenu" where
  "demo_newmenu rid = \<lparr> nm_RestaurantID = rid, nm_Date = 120, nm_Menu = ''soup'' \<rparr>"

definition demo_deps :: Deps where
  "demo_deps =
     \<lparr> scheme = demo_scheme,
       uuidParse = (\<lambda>s. length s = 36),
       decodeUpdateRestaurant = (\<lambda>r. Inr \<lparr> up_Name = Some ''Test restaurant'', up_Address = None \<rparr>),
       decodeNewMenu = (\<lambda>r. Inr (demo_newmenu (ID demo_restaurant))),
       otherHandler = (\<lambda>e ctx r params w. (None, w)) \<rparr>"

text \<open>A caller without the role \<open>ADMIN\<close> who does not own the restaurant either.\<close>

definition demo_user_claims :: Claims where
  "demo_user_claims =
     \<lparr> Subject = ''7a2f1c9e-6d0b-4a57-8f3e-2b9c5d1e4f60'', Roles = [''USER''],
       IssuedAt = 100, ExpiresAt = 200, NotBefore = 100 \<rparr>"

definition demo_ctx :: Context where
  "demo_ctx = \<lparr> KeyValues = Some 0, AuthKey = Some demo_claims, Spans = [] \<rparr>"

text \<open>An inner handler that takes five seconds, answers 404 and returns an error.\<close>

definition demo_inner :: Handler where
  "demo_inner ctx r params w =
     (case Respond ctx PNil 404 (w\<lparr> clock := clock w + 5 \<rparr>) of
        (_, w1) \<Rightarrow> (Some ErrNotFound, w1))"

section \<open>Properties of \<open>run\<close>\<close>

lemma startup_env_signal: "startup (env_signal sig sd cl) = None"
  by (simp add: startup_def env_signal_def)

lemma env_signal_fields:
  "received (env_signal sig sd cl) = Sig sig"
  "apiShutdown (env_signal sig sd cl) = sd"
  "apiClose (env_signal sig sd cl) = cl"
  by (simp_all add: env_signal_def)

text \<open>
  C7. When the shutdown channel delivers \<open>SIGSTOP\<close>, \<open>run\<close> returns the error
  "integrity issue caused shutdown", whatever \<open>api.Shutdown\<close> and \<open>api.Close\<close> returned; for
  any other signal, when the server was closed without error (the graceful shutdown
  succeeded, or it failed and the forced close succeeded), \<open>run\<close> returns nil.
\<close>

theorem run_integrity_signal:
  assumes "startup env = None" and "received env = Sig sig"
  shows "(sig = SIGSTOP \<longrightarrow> run env = Some (ErrorsNew ''integrity issue caused shutdown''))
       \<and> (sig \<noteq> SIGSTOP \<longrightarrow> (apiShutdown env = None \<or> apiClose env = None) \<longrightarrow> run env = None)"
  using assms by (auto simp: run_def shutdown_select_def Let_def split: option.splits)

theorem run_integrity_signal_witness:
  "startup (env_signal SIGSTOP None None) = None
   \<and> run (env_signal SIGSTOP None None) = Some (ErrorsNew ''integrity issue caused shutdown'')
   \<and> startup (env_signal SIGTERM None None) = None
   \<and> apiShutdown (env_signal SIGTERM None None) = None
   \<and> run (env_signal SIGTERM None None) = None"
proof -
  from run_integrity_signal [OF startup_env_signal env_signal_fields(1), of SIGSTOP None None]
  have 1: "run (env_signal SIGSTOP None None) = Some (ErrorsNew ''integrity issue caused shutdown'')"
    by simp
  from run_integrity_signal [OF startup_env_signal env_signal_fields(1), of SIGTERM None None]
  have 2: "run (env_signal SIGTERM None None) = None"
    by (simp add: env_signal_fields)
  from 1 2 show ?thesis
    by (simp add: startup_env_signal env_signal_fields)
qed

text \<open>
  What \<open>run\<close> returns after a signal when \<open>api.Shutdown\<close> has returned an error: a non-nil
  error exactly when the forced close \<open>api.Close\<close> returns an error too or the signal is
  \<open>SIGSTOP\<close>. The error of \<open>api.Shutdown\<close> itself is in no result: it is overwritten by the
  result of \<open>api.Close\<close>.
\<close>

lemma run_after_failed_shutdown:
  assumes "startup env = None" and "received env = Sig sig" and "apiShutdown env = Some e"
  shows "(run env \<noteq> None \<longleftrightarrow> sig = SIGSTOP \<or> apiClose env \<noteq> None)
       \<and> (sig \<noteq> SIGSTOP \<longrightarrow> run env = Wrap (apiClose env) ''could not stop server gracefully'')"
  using assms by (cases "apiClose env") (auto simp: run_def shutdown_select_def Let_def)

text \<open>
  C2. The claim: whenever a signal is received and the graceful attempt \<open>api.Shutdown\<close>
  returns an error, \<open>run\<close> returns a non-nil error, also when the forced close succeeds.
  The code at the execution in which every start-up step succeeds, \<open>SIGTERM\<close> arrives,
  \<open>api.Shutdown\<close> returns an error and \<open>api.Close\<close> returns nil: \<open>run\<close> returns nil. The error
  of the graceful attempt is lost where \<open>err\<close> is assigned the result of \<open>api.Close\<close>, before
  the \<open>switch\<close> that would return it as "could not stop server gracefully".
\<close>

theorem run_shutdown_error_lost:
  "startup (env_signal SIGTERM (Some (External ''context deadline exceeded'')) None) = None
   \<and> received (env_signal SIGTERM (Some (External ''context deadline exceeded'')) None) = Sig SIGTERM
   \<and> apiShutdown (env_signal SIGTERM (Some (External ''context deadline exceeded'')) None) \<noteq> None
   \<and> run (env_signal SIGTERM (Some (External ''context deadline exceeded'')) None) = None"
  by (simp add: run_def startup_env_signal) (simp add: env_signal_def shutdown_select_def)

section \<open>Properties of the authenticator\<close>



text \<open>
  Once the expiry has passed, the token is refused as expired: the token of \<open>demo_claims\<close>,
  which expires at 200, verified at 300.
\<close>

lemma token_expired_refused:
  "ParseClaims demo_scheme demo_authenticator 300
     (GenerateToken demo_scheme demo_authenticator demo_claims) = Inl (AuthFailure Expired)"
  by (simp add: ParseClaims_def GenerateToken_def Let_def demo_scheme_def demo_authenticator_def
      demo_claims_def NewSimpleKeyLookupFunc_def)



section \<open>Properties of the route table\<close>

lemma API_routes_list:
  "map (\<lambda>rt. (rt_method rt, rt_path rt, rt_handler rt, rt_mw rt)) (app_routes (API build a)) =
     [ (''GET'', ''/v1/health'', CheckHealth, []),
       (''GET'', ''/v1/users'', UserList, [Authenticate a, HasRole ''ADMIN'']),
       (''POST'', ''/v1/users'', UserCreate, [Authenticate a, HasRole ''ADMIN'']),
       (''GET'', ''/v1/users/token'', UserToken, []),
       (''GET'', ''/v1/restaurant'', RestaurantList, [Authenticate a]),
       (''POST'', ''/v1/restaurant'', RestaurantCreate, [Authenticate a]),
       (''GET'', ''/v1/restaurant/:id'', RestaurantRetrieve, [Authenticate a]),
       (''PUT'', ''/v1/restaurant/:id'', RestaurantUpdate, [Authenticate a]),
       (''DELETE'', ''/v1/restaurant/:id'', RestaurantDelete, [Authenticate a]),
       (''GET'', ''/v1/restaurant/:restaurantId/menu'', MenuRetrieveMenu, [Authenticate a]),
       (''GET'', ''/v1/restaurant/:restaurantId/votes'', MenuRetrieveVotes, [Authenticate a]),
       (''POST'', ''/v1/restaurant/:restaurantId/menu'', MenuCreateMenu,
          [Authenticate a, HasRole ''ADMIN'']) ]"
  by (simp add: API_def Handle_def NewApp_def Let_def RoleAdmin_def)

lemma app_mw_API: "app_mw (API build a) = [Logger, Errors, Metrics, Panics]"
  by (simp add: API_def Handle_def NewApp_def Let_def)

text \<open>
  C3. The routes that \<open>API\<close> registers, each with the middlewares of its own, are exactly
  the twelve of the spec: the health check and the token endpoint with none; the two user
  endpoints and the creation of a menu with Authenticate and HasRole(ADMIN); the other
  seven with Authenticate only. No method and path is registered twice, and the global
  middlewares, which wrap every route, are logging, error translation, metrics and panic
  recovery, none of which authenticates.
\<close>

theorem API_route_table:
  "set (map (\<lambda>rt. (rt_method rt, rt_path rt, rt_mw rt)) (app_routes (API build a))) =
     { (''GET'', ''/v1/health'', []),
       (''GET'', ''/v1/users/token'', []),
       (''GET'', ''/v1/users'', [Authenticate a, HasRole ''ADMIN'']),
       (''POST'', ''/v1/users'', [Authenticate a, HasRole ''ADMIN'']),
       (''POST'', ''/v1/restaurant/:restaurantId/menu'', [Authenticate a, HasRole ''ADMIN'']),
       (''GET'', ''/v1/restaurant'', [Authenticate a]),
       (''POST'', ''/v1/restaurant'', [Authenticate a]),
       (''GET'', ''/v1/restaurant/:id'', [Authenticate a]),
       (''PUT'', ''/v1/restaurant/:id'', [Authenticate a]),
       (''DELETE'', ''/v1/restaurant/:id'', [Authenticate a]),
       (''GET'', ''/v1/restaurant/:restaurantId/menu'', [Authenticate a]),
       (''GET'', ''/v1/restaurant/:restaurantId/votes'', [Authenticate a]) }
   \<and> distinct (map (\<lambda>rt. (rt_method rt, rt_path rt)) (app_routes (API build a)))
   \<and> app_mw (API build a) = [Logger, Errors, Metrics, Panics]"
proof -
  let ?rows = "map (\<lambda>rt. (rt_method rt, rt_path rt, rt_handler rt, rt_mw rt)) (app_routes (API build a))"
  have m: "map (\<lambda>rt. (rt_method rt, rt_path rt, rt_mw rt)) (app_routes (API build a)) =
           map (\<lambda>(m, p, h, mw). (m, p, mw)) ?rows"
    by (simp add: comp_def)
  have k: "map (\<lambda>rt. (rt_method rt, rt_path rt)) (app_routes (API build a)) =
           map (\<lambda>(m, p, h, mw). (m, p)) ?rows"
    by (simp add: comp_def)
  have s: "set (map (\<lambda>rt. (rt_method rt, rt_path rt, rt_mw rt)) (app_routes (API build a))) =
     { (''GET'', ''/v1/health'', []),
       (''GET'', ''/v1/users/token'', []),
       (''GET'', ''/v1/users'', [Authenticate a, HasRole ''ADMIN'']),
       (''POST'', ''/v1/users'', [Authenticate a, HasRole ''ADMIN'']),
       (''POST'', ''/v1/restaurant/:restaurantId/menu'', [Authenticate a, HasRole ''ADMIN'']),
       (''GET'', ''/v1/restaurant'', [Authenticate a]),
       (''POST'', ''/v1/restaurant'', [Authenticate a]),
       (''GET'', ''/v1/restaurant/:id'', [Authenticate a]),
       (''PUT'', ''/v1/restaurant/:id'', [Authenticate a]),
       (''DELETE'', ''/v1/restaurant/:id'', [Authenticate a]),
       (''GET'', ''/v1/restaurant/:restaurantId/menu'', [Authenticate a]),
       (''GET'', ''/v1/restaurant/:restaurantId/votes'', [Authenticate a]) }"
    unfolding m API_routes_list by (simp add: insert_commute)
  have d: "distinct (map (\<lambda>rt. (rt_method rt, rt_path rt)) (app_routes (API build a)))"
    unfolding k API_routes_list by simp
  have g: "app_mw (API build a) = [Logger, Errors, Metrics, Panics]"
    by (rule app_mw_API)
  show ?thesis
    by (rule conjI [OF s conjI [OF d g]])
qed

section \<open>Properties of the logging middleware\<close>

text \<open>
  C4. Without Context Values in the request context, the handler made by \<open>mid.Logger\<close>
  returns the shutdown error and leaves the world as it was, whatever the inner handler
  is: the inner handler is not invoked. With them (at the address \<open>p\<close>), it invokes the
  inner handler, and when that has returned \<open>err\<close> in the world \<open>w1\<close>, it appends exactly one
  line to the log, made of the trace id and the status code recorded then, the method,
  the path, the remote address and the time elapsed since the start, and returns \<open>err\<close>
  itself, nil or not.
\<close>

theorem Logger_contract:
  "(KeyValues ctx = None \<longrightarrow>
      mid_Logger before ctx r params w = (Some (ShutdownError ''web value missing from context''), w))
   \<and> (\<forall>p err w1.
        KeyValues ctx = Some p \<and> before (StartSpan ctx ''internal.mid.Logger'') r params w = (err, w1) \<longrightarrow>
        mid_Logger before ctx r params w =
          (err, w1\<lparr> logged := logged w1 @
                  [\<lparr> ll_TraceID = TraceID (cells w1 p), ll_StatusCode = StatusCode (cells w1 p),
                     ll_Method = Method r, ll_Path = Path r, ll_RemoteAddr = RemoteAddr r,
                     ll_Elapsed = clock w1 - Now (cells w1 p) \<rparr>] \<rparr>))"
  by (simp add: mid_Logger_def StartSpan_def Let_def)

theorem Logger_contract_witness:
  "mid_Logger demo_inner (demo_ctx\<lparr> KeyValues := None \<rparr>)
       (demo_request ''GET'' ''/v1/restaurant/1'' None) Map.empty demo_world
     = (Some (ShutdownError ''web value missing from context''), demo_world)
   \<and> KeyValues demo_ctx = Some 0
   \<and> fst (mid_Logger demo_inner demo_ctx (demo_request ''GET'' ''/v1/restaurant/1'' None) Map.empty demo_world)
       = Some ErrNotFound
   \<and> logged (snd (mid_Logger demo_inner demo_ctx (demo_request ''GET'' ''/v1/restaurant/1'' None) Map.empty demo_world))
       = [\<lparr> ll_TraceID = [], ll_StatusCode = 404, ll_Method = ''GET'', ll_Path = ''/v1/restaurant/1'',
            ll_RemoteAddr = ''192.0.2.7:40312'', ll_Elapsed = 155 \<rparr>]"
proof -
  let ?r = "demo_request ''GET'' ''/v1/restaurant/1'' None"
  let ?w1 = "snd (demo_inner (StartSpan demo_ctx ''internal.mid.Logger'') ?r Map.empty demo_world)"
  have k: "KeyValues demo_ctx = Some 0"
    by (simp add: demo_ctx_def)
  have inner: "demo_inner (StartSpan demo_ctx ''internal.mid.Logger'') ?r Map.empty demo_world
                 = (Some ErrNotFound, ?w1)"
    by (simp add: demo_inner_def split: prod.splits)
  have w1: "logged ?w1 = []" "StatusCode (cells ?w1 0) = 404" "TraceID (cells ?w1 0) = []"
           "clock ?w1 = 155" "Now (cells ?w1 0) = 0"
    by (simp_all add: demo_inner_def Respond_def StartSpan_def demo_ctx_def demo_world_def)
  from Logger_contract [of demo_ctx demo_inner ?r Map.empty demo_world] k inner
  have "mid_Logger demo_inner demo_ctx ?r Map.empty demo_world =
          (Some ErrNotFound, ?w1\<lparr> logged := logged ?w1 @
                  [\<lparr> ll_TraceID = TraceID (cells ?w1 0), ll_StatusCode = StatusCode (cells ?w1 0),
                     ll_Method = Method ?r, ll_Path = Path ?r, ll_RemoteAddr = RemoteAddr ?r,
                     ll_Elapsed = clock ?w1 - Now (cells ?w1 0) \<rparr>] \<rparr>)"
    by blast
  moreover
  from Logger_contract [of "demo_ctx\<lparr> KeyValues := None \<rparr>" demo_inner ?r Map.empty demo_world]
  have "mid_Logger demo_inner (demo_ctx\<lparr> KeyValues := None \<rparr>) ?r Map.empty demo_world
          = (Some (ShutdownError ''web value missing from context''), demo_world)"
    by simp
  ultimately show ?thesis
    using k w1 by (simp add: demo_request_def)
qed

section \<open>Properties of package \<open>restaurant\<close>\<close>

lemma db_sent_tables [simp]:
  "restaurant_table (db_sent st db) = restaurant_table db"
  "menu_table (db_sent st db) = menu_table db"
  "executed (db_sent st db) = executed db @ [st]"
  by (simp_all add: db_sent_def)

lemma Retrieve_cases:
  "restaurant_Retrieve parse db rid =
     (if \<not> parse rid then (Inl ErrInvalidID, db)
      else case db_fault db of
             Some e \<Rightarrow> (if e = SqlErrNoRows then Inl ErrNotFound
                         else Inl (Wrapped e ''selecting single restaurant''),
                        db_sent (SelectRestaurant rid) db)
           | None \<Rightarrow>
               (case find (\<lambda>x. ID x = rid) (restaurant_table db) of
                  None \<Rightarrow> (Inl ErrNotFound, db_sent (SelectRestaurant rid) db)
                | Some r \<Rightarrow> (Inr r, db_sent (SelectRestaurant rid) db)))"
  by (simp add: restaurant_Retrieve_def GetContext_restaurant_def split: option.split)

lemma Retrieve_ok_db:
  assumes "restaurant_Retrieve parse db rid = (Inr r, db1)"
  shows "db1 = db_sent (SelectRestaurant rid) db"
proof (cases "parse rid")
  case False
  with assms show ?thesis by (simp add: Retrieve_cases)
next
  case p: True
  show ?thesis
  proof (cases "db_fault db")
    case (Some e)
    with assms p show ?thesis by (simp add: Retrieve_cases split: if_splits)
  next
    case f: None
    show ?thesis
    proof (cases "find (\<lambda>x. ID x = rid) (restaurant_table db)")
      case None
      with assms p f show ?thesis by (simp add: Retrieve_cases)
    next
      case (Some r')
      with assms p f show ?thesis by (simp add: Retrieve_cases)
    qed
  qed
qed

lemma Update_after_Retrieve:
  assumes "restaurant_Retrieve parse db rid = (Inr r, db1)"
  shows "restaurant_Update parse db user rid update now =
     (if ''ADMIN'' \<notin> set (Roles user) \<and> OwnerUserID r \<noteq> Subject user then (Some ErrForbidden, db1)
      else case db_fault db1 of
             Some e \<Rightarrow> (Some (Wrapped e ''updating restaurant''),
                         db_sent (UpdateRestaurantSet rid
                            (case up_Name update of Some n \<Rightarrow> n | None \<Rightarrow> Name r)
                            (case up_Address update of Some a \<Rightarrow> a | None \<Rightarrow> Address r) now) db1)
           | None \<Rightarrow> (None,
                        db_apply (UpdateRestaurantSet rid
                            (case up_Name update of Some n \<Rightarrow> n | None \<Rightarrow> Name r)
                            (case up_Address update of Some a \<Rightarrow> a | None \<Rightarrow> Address r) now)
                          (db_sent (UpdateRestaurantSet rid
                            (case up_Name update of Some n \<Rightarrow> n | None \<Rightarrow> Name r)
                            (case up_Address update of Some a \<Rightarrow> a | None \<Rightarrow> Address r) now) db1)))"
proof -
  have n: "Name (case up_Address update of None \<Rightarrow> (case up_Name update of None \<Rightarrow> r | Some n \<Rightarrow> r\<lparr>Name := n\<rparr>)
                 | Some a \<Rightarrow> (case up_Name update of None \<Rightarrow> r | Some n \<Rightarrow> r\<lparr>Name := n\<rparr>)\<lparr>Address := a\<rparr>)
           = (case up_Name update of Some n \<Rightarrow> n | None \<Rightarrow> Name r)"
    by (cases "up_Name update"; cases "up_Address update"; simp)
  have a: "Address (case up_Address update of None \<Rightarrow> (case up_Name update of None \<Rightarrow> r | Some n \<Rightarrow> r\<lparr>Name := n\<rparr>)
                 | Some a \<Rightarrow> (case up_Name update of None \<Rightarrow> r | Some n \<Rightarrow> r\<lparr>Name := n\<rparr>)\<lparr>Address := a\<rparr>)
           = (case up_Address update of Some a \<Rightarrow> a | None \<Rightarrow> Address r)"
    by (cases "up_Name update"; cases "up_Address update"; simp)
  show ?thesis
    using assms
    by (cases "db_fault db1")
       (simp_all add: restaurant_Update_def Claims_HasRole_def RoleAdmin_def Let_def ExecContext_def n a)
qed

text \<open>
  C9. Where \<open>Update\<close> has retrieved the stored restaurant \<open>r\<close>: a caller without the role
  \<open>ADMIN\<close> whose subject is not the owner of \<open>r\<close> gets \<open>ErrForbidden\<close>, and the database has
  received the \<open>SELECT\<close> only, its tables unchanged. A caller with the role \<open>ADMIN\<close> never gets
  \<open>ErrForbidden\<close>, whoever owns \<open>r\<close>; when the database accepts the \<open>UPDATE\<close>, \<open>Update\<close> returns nil
  and the rows of that id carry the new name, address and date.
\<close>

theorem Update_authorization:
  assumes "restaurant_Retrieve parse db rid = (Inr r, db1)"
  shows "(''ADMIN'' \<notin> set (Roles user) \<and> OwnerUserID r \<noteq> Subject user \<longrightarrow>
            restaurant_Update parse db user rid update now = (Some ErrForbidden, db1)
            \<and> restaurant_table db1 = restaurant_table db
            \<and> menu_table db1 = menu_table db
            \<and> executed db1 = executed db @ [SelectRestaurant rid])
       \<and> (''ADMIN'' \<in> set (Roles user) \<longrightarrow>
            fst (restaurant_Update parse db user rid update now) \<noteq> Some ErrForbidden
            \<and> (db_fault db1 = None \<longrightarrow>
                 fst (restaurant_Update parse db user rid update now) = None
                 \<and> restaurant_table (snd (restaurant_Update parse db user rid update now)) =
                     map (\<lambda>x. if ID x = rid
                               then x\<lparr> Name := (case up_Name update of Some n \<Rightarrow> n | None \<Rightarrow> Name r),
                                       Address := (case up_Address update of Some a \<Rightarrow> a | None \<Rightarrow> Address r),
                                       DateUpdated := now \<rparr>
                               else x)
                       (restaurant_table db)))"
proof -
  note db1 = Retrieve_ok_db [OF assms]
  note upd = Update_after_Retrieve [OF assms, of user update now]
  have forbidden: "''ADMIN'' \<notin> set (Roles user) \<and> OwnerUserID r \<noteq> Subject user \<longrightarrow>
            restaurant_Update parse db user rid update now = (Some ErrForbidden, db1)
            \<and> restaurant_table db1 = restaurant_table db
            \<and> menu_table db1 = menu_table db
            \<and> executed db1 = executed db @ [SelectRestaurant rid]"
    by (simp add: upd) (simp add: db1)
  have admin1: "''ADMIN'' \<in> set (Roles user) \<longrightarrow>
      fst (restaurant_Update parse db user rid update now) \<noteq> Some ErrForbidden"
    by (cases "db_fault db1") (simp_all add: upd)
  have admin2: "''ADMIN'' \<in> set (Roles user) \<longrightarrow> db_fault db1 = None \<longrightarrow>
      fst (restaurant_Update parse db user rid update now) = None
       \<and> restaurant_table (snd (restaurant_Update parse db user rid update now)) =
                     map (\<lambda>x. if ID x = rid
                               then x\<lparr> Name := (case up_Name update of Some n \<Rightarrow> n | None \<Rightarrow> Name r),
                                       Address := (case up_Address update of Some a \<Rightarrow> a | None \<Rightarrow> Address r),
                                       DateUpdated := now \<rparr>
                               else x)
                       (restaurant_table db)"
    by (simp add: upd) (simp add: db1)
  from forbidden admin1 admin2 show ?thesis by blast
qed

lemma demo_Retrieve:
  "restaurant_Retrieve (\<lambda>s. length s = 36) demo_db (ID demo_restaurant) =
     (Inr demo_restaurant, db_sent (SelectRestaurant (ID demo_restaurant)) demo_db)"
  by (simp add: Retrieve_cases db_fault_def) (simp add: demo_db_def demo_restaurant_def)

theorem Update_authorization_witness:
  "restaurant_Retrieve (\<lambda>s. length s = 36) demo_db (ID demo_restaurant) =
     (Inr demo_restaurant, db_sent (SelectRestaurant (ID demo_restaurant)) demo_db)
   \<and> ''ADMIN'' \<notin> set (Roles demo_user_claims)
   \<and> OwnerUserID demo_restaurant \<noteq> Subject demo_user_claims
   \<and> restaurant_Update (\<lambda>s. length s = 36) demo_db demo_user_claims (ID demo_restaurant)
        \<lparr> up_Name = Some ''Test restaurant'', up_Address = None \<rparr> 150 =
       (Some ErrForbidden, db_sent (SelectRestaurant (ID demo_restaurant)) demo_db)
   \<and> ''ADMIN'' \<in> set (Roles demo_claims)
   \<and> OwnerUserID demo_restaurant \<noteq> Subject demo_claims
   \<and> fst (restaurant_Update (\<lambda>s. length s = 36) demo_db demo_claims (ID demo_restaurant)
        \<lparr> up_Name = Some ''Test restaurant'', up_Address = None \<rparr> 150) = None"
proof -
  have u: "''ADMIN'' \<notin> set (Roles demo_user_claims)"
          "OwnerUserID demo_restaurant \<noteq> Subject demo_user_claims"
    by (simp_all add: demo_user_claims_def demo_restaurant_def)
  have a: "''ADMIN'' \<in> set (Roles demo_claims)"
          "OwnerUserID demo_restaurant \<noteq> Subject demo_claims"
    by (simp_all add: demo_claims_def demo_restaurant_def)
  have f: "db_fault (db_sent (SelectRestaurant (ID demo_restaurant)) demo_db) = None"
    by (simp add: db_fault_def db_sent_def demo_db_def)
  from Update_authorization [OF demo_Retrieve, of demo_user_claims
         "\<lparr> up_Name = Some ''Test restaurant'', up_Address = None \<rparr>" 150] u
  have 1: "restaurant_Update (\<lambda>s. length s = 36) demo_db demo_user_claims (ID demo_restaurant)
        \<lparr> up_Name = Some ''Test restaurant'', up_Address = None \<rparr> 150 =
       (Some ErrForbidden, db_sent (SelectRestaurant (ID demo_restaurant)) demo_db)"
    by blast
  from Update_authorization [OF demo_Retrieve, of demo_claims
         "\<lparr> up_Name = Some ''Test restaurant'', up_Address = None \<rparr>" 150] a f
  have 2: "fst (restaurant_Update (\<lambda>s. length s = 36) demo_db demo_claims (ID demo_restaurant)
        \<lparr> up_Name = Some ''Test restaurant'', up_Address = None \<rparr> 150) = None"
    by blast
  from demo_Retrieve u a 1 2 show ?thesis by blast
qed

section \<open>Properties of the handlers behind the middleware chain\<close>

lemma new_values_world [simp]:
  "fst (new_values w) = cells_used w"
  "database (snd (new_values w)) = database w"
  "written (snd (new_values w)) = written w"
  "clock (snd (new_values w)) = clock w"
  by (simp_all add: new_values_def uuid_New_def)

lemma route_handler_bearer:
  "rt_mw rt = [Authenticate a] \<Longrightarrow>
   route_handler d (API build a) rt =
     mid_Logger (mid_Errors (mid_Metrics (mid_Panics
       (mid_Authenticate (scheme d) a (handler_of d (rt_handler rt))))))"
  by (simp add: route_handler_def wrapMiddleware_def app_mw_API)

text \<open>The global middlewares around a handler that returns a request error, wrapped or not.\<close>

lemma chain_request_error:
  assumes "h (StartSpan ctx ''internal.mid.Logger'') r params w = (Some err, w1)"
      and "Cause err = RequestError (Some e) st fs"
      and "KeyValues ctx = Some p"
  shows "\<exists>w'. mid_Logger (mid_Errors (mid_Metrics (mid_Panics h))) ctx r params w = (None, w')
           \<and> written w' = written w1 @ [(st, PErrorResponse \<lparr> er_Error = error_message e, er_Fields = fs \<rparr>)]
           \<and> database w' = database w1"
  using assms
  by (simp add: mid_Logger_def mid_Errors_def mid_Metrics_def mid_Panics_def StartSpan_def
      RespondError_def Respond_def IsShutdown_def Let_def)

text \<open>The global middlewares around a handler that returns nil.\<close>

lemma chain_ok:
  assumes "h (StartSpan ctx ''internal.mid.Logger'') r params w = (None, w1)"
      and "KeyValues ctx = Some p"
  shows "\<exists>w'. mid_Logger (mid_Errors (mid_Metrics (mid_Panics h))) ctx r params w = (None, w')
           \<and> written w' = written w1 \<and> database w' = database w1"
  using assms
  by (simp add: mid_Logger_def mid_Errors_def mid_Metrics_def mid_Panics_def StartSpan_def Let_def)

lemma authenticate_ok:
  assumes "Authorization r = Some (Bearer tok)" and "ParseClaims sch a (clock w) tok = Inr claims"
  shows "mid_Authenticate sch a h ctx r params w = h (ctx\<lparr> AuthKey := Some claims \<rparr>) r params w"
  using assms by (simp add: mid_Authenticate_def)

text \<open>
  A request with a valid bearer token on a route that requires the token only: what is
  written when the route's handler returns a request error, and when it returns nil.
\<close>

lemma dispatch_bearer_error:
  assumes route: "find (\<lambda>rt. rt_method rt = Method r \<and> rt_path rt = pattern) (app_routes (API build a)) = Some rt"
      and mw: "rt_mw rt = [Authenticate a]"
      and tok: "Authorization r = Some (Bearer tok)" "ParseClaims (scheme d) a (clock w) tok = Inr claims"
      and h: "handler_of d (rt_handler rt)
                \<lparr> KeyValues = Some (cells_used w), AuthKey = Some claims, Spans = [''internal.mid.Logger''] \<rparr>
                r params (snd (new_values w)) = (Some err, w2)"
      and c: "Cause err = RequestError (Some e) st fs"
  shows "written (dispatch d (API build a) pattern params r w) =
           written w2 @ [(st, PErrorResponse \<lparr> er_Error = error_message e, er_Fields = fs \<rparr>)]
         \<and> database (dispatch d (API build a) pattern params r w) = database w2"
proof -
  let ?ctx = "\<lparr> KeyValues = Some (cells_used w), AuthKey = None, Spans = [] \<rparr>"
  let ?h = "mid_Authenticate (scheme d) a (handler_of d (rt_handler rt))"
  have "?h (StartSpan ?ctx ''internal.mid.Logger'') r params (snd (new_values w)) = (Some err, w2)"
    using tok h by (simp add: authenticate_ok [where claims = claims] StartSpan_def)
  from chain_request_error [where h = ?h and ctx = ?ctx and p = "cells_used w", OF this c]
  obtain w' where w':
      "mid_Logger (mid_Errors (mid_Metrics (mid_Panics ?h))) ?ctx r params (snd (new_values w)) = (None, w')"
      "written w' = written w2 @ [(st, PErrorResponse \<lparr> er_Error = error_message e, er_Fields = fs \<rparr>)]"
      "database w' = database w2"
    by auto
  have "dispatch d (API build a) pattern params r w = w'"
    using route w'(1) by (simp add: dispatch_def route_handler_bearer [OF mw] case_prod_beta)
  with w'(2,3) show ?thesis by simp
qed

lemma dispatch_bearer_ok:
  assumes route: "find (\<lambda>rt. rt_method rt = Method r \<and> rt_path rt = pattern) (app_routes (API build a)) = Some rt"
      and mw: "rt_mw rt = [Authenticate a]"
      and tok: "Authorization r = Some (Bearer tok)" "ParseClaims (scheme d) a (clock w) tok = Inr claims"
      and h: "handler_of d (rt_handler rt)
                \<lparr> KeyValues = Some (cells_used w), AuthKey = Some claims, Spans = [''internal.mid.Logger''] \<rparr>
                r params (snd (new_values w)) = (None, w2)"
  shows "written (dispatch d (API build a) pattern params r w) = written w2
         \<and> database (dispatch d (API build a) pattern params r w) = database w2"
proof -
  let ?ctx = "\<lparr> KeyValues = Some (cells_used w), AuthKey = None, Spans = [] \<rparr>"
  let ?h = "mid_Authenticate (scheme d) a (handler_of d (rt_handler rt))"
  have "?h (StartSpan ?ctx ''internal.mid.Logger'') r params (snd (new_values w)) = (None, w2)"
    using tok h by (simp add: authenticate_ok [where claims = claims] StartSpan_def)
  from chain_ok [where h = ?h and ctx = ?ctx and p = "cells_used w", OF this]
  obtain w' where w':
      "mid_Logger (mid_Errors (mid_Metrics (mid_Panics ?h))) ?ctx r params (snd (new_values w)) = (None, w')"
      "written w' = written w2" "database w' = database w2"
    by auto
  have "dispatch d (API build a) pattern params r w = w'"
    using route w'(1) by (simp add: dispatch_def route_handler_bearer [OF mw] case_prod_beta)
  with w'(2,3) show ?thesis by simp
qed

lemma find_route_GET_id:
  "Method r = ''GET'' \<Longrightarrow>
   find (\<lambda>rt. rt_method rt = Method r \<and> rt_path rt = ''/v1/restaurant/:id'') (app_routes (API build a))
     = Some \<lparr> rt_method = ''GET'', rt_path = ''/v1/restaurant/:id'', rt_handler = RestaurantRetrieve,
              rt_mw = [Authenticate a] \<rparr>"
  by (simp add: API_def Handle_def NewApp_def Let_def)

lemma find_route_DELETE_id:
  "Method r = ''DELETE'' \<Longrightarrow>
   find (\<lambda>rt. rt_method rt = Method r \<and> rt_path rt = ''/v1/restaurant/:id'') (app_routes (API build a))
     = Some \<lparr> rt_method = ''DELETE'', rt_path = ''/v1/restaurant/:id'', rt_handler = RestaurantDelete,
              rt_mw = [Authenticate a] \<rparr>"
  by (simp add: API_def Handle_def NewApp_def Let_def)

lemma find_route_POST_restaurant:
  "Method r = ''POST'' \<Longrightarrow>
   find (\<lambda>rt. rt_method rt = Method r \<and> rt_path rt = ''/v1/restaurant'') (app_routes (API build a))
     = Some \<lparr> rt_method = ''POST'', rt_path = ''/v1/restaurant'', rt_handler = RestaurantCreate,
              rt_mw = [Authenticate a] \<rparr>"
  by (simp add: API_def Handle_def NewApp_def Let_def)

lemma demo_token_valid:
  "ParseClaims (scheme demo_deps) demo_authenticator (clock demo_world) demo_token = Inr demo_claims"
  by (simp add: ParseClaims_def GenerateToken_def demo_token_def Let_def demo_deps_def demo_world_def
      demo_scheme_def demo_authenticator_def demo_claims_def NewSimpleKeyLookupFunc_def)

section \<open>Malformed identifiers\<close>

text \<open>
  C5. For an id that \<open>uuid.Parse\<close> refuses, \<open>restaurant.Retrieve\<close> returns \<open>ErrInvalidID\<close> and the
  database is the one it was given: no statement was sent. The handler
  \<open>Restaurant.Retrieve\<close> turns this into the request error with status 400. A
  \<open>GET /v1/restaurant/:id\<close> request that carries a valid bearer token, as the route
  requires, and binds \<open>id\<close> to such an id is answered with status 400 and the error response
  whose JSON text is exactly \<open>{"error":"ID is not in its proper form"}\<close>; the database is
  untouched.
\<close>

theorem Retrieve_malformed_id:
  assumes bad: "\<not> parse rid"
  shows \<open>restaurant_Retrieve parse db rid = (Inl ErrInvalidID, db)
       \<and> (param params ''id'' = rid \<longrightarrow>
            Restaurant_Retrieve parse ctx r params w = (Some (RequestError (Some ErrInvalidID) 400 []), w))
       \<and> (Method r = ''GET'' \<and> Authorization r = Some (Bearer tok)
            \<and> ParseClaims (scheme d) a (clock w) tok = Inr claims
            \<and> uuidParse d = parse \<and> param params ''id'' = rid \<longrightarrow>
          written (dispatch d (API build a) ''/v1/restaurant/:id'' params r w) =
            written w @ [(400, PErrorResponse \<lparr> er_Error = ''ID is not in its proper form'', er_Fields = [] \<rparr>)]
          \<and> json_ErrorResponse \<lparr> er_Error = ''ID is not in its proper form'', er_Fields = [] \<rparr> =
              ''{"error":"ID is not in its proper form"}''
          \<and> database (dispatch d (API build a) ''/v1/restaurant/:id'' params r w) = database w)\<close>
proof -
  have 1: "restaurant_Retrieve parse db' rid = (Inl ErrInvalidID, db')" for db'
    using bad by (simp add: restaurant_Retrieve_def)
  have 2: \<open>json_ErrorResponse \<lparr> er_Error = ''ID is not in its proper form'', er_Fields = [] \<rparr> =
              ''{"error":"ID is not in its proper form"}''\<close>
    by (simp add: json_ErrorResponse_def json_string_def)
  have 3: "written (dispatch d (API build a) ''/v1/restaurant/:id'' params r w) =
            written w @ [(400, PErrorResponse \<lparr> er_Error = ''ID is not in its proper form'', er_Fields = [] \<rparr>)]
          \<and> database (dispatch d (API build a) ''/v1/restaurant/:id'' params r w) = database w"
    if m: "Method r = ''GET''" and t: "Authorization r = Some (Bearer tok)"
      "ParseClaims (scheme d) a (clock w) tok = Inr claims"
      and p: "uuidParse d = parse" "param params ''id'' = rid"
  proof -
    let ?rt = "\<lparr> rt_method = ''GET'', rt_path = ''/v1/restaurant/:id'', rt_handler = RestaurantRetrieve,
                rt_mw = [Authenticate a] \<rparr>"
    have h: "handler_of d (rt_handler ?rt)
               \<lparr> KeyValues = Some (cells_used w), AuthKey = Some claims, Spans = [''internal.mid.Logger''] \<rparr>
               r params (snd (new_values w)) = (Some (RequestError (Some ErrInvalidID) 400 []), snd (new_values w))"
      using p by (simp add: Restaurant_Retrieve_def 1 Let_def)
    from dispatch_bearer_error [OF find_route_GET_id [OF m] _ t h]
    show ?thesis by simp
  qed
  have 4: "Restaurant_Retrieve parse ctx r params w = (Some (RequestError (Some ErrInvalidID) 400 []), w)"
    if "param params ''id'' = rid"
    using that by (simp add: Restaurant_Retrieve_def 1 Let_def)
  from 1 2 3 4 show ?thesis by blast
qed

theorem Retrieve_malformed_id_witness:
  "\<not> (\<lambda>s. length s = 36) ''12345''
   \<and> restaurant_Retrieve (\<lambda>s. length s = 36) demo_db ''12345'' = (Inl ErrInvalidID, demo_db)
   \<and> fst (Restaurant_Retrieve (\<lambda>s. length s = 36) demo_ctx
             (demo_request ''GET'' ''/v1/restaurant/12345'' None) [''id'' \<mapsto> ''12345''] demo_world)
       = Some (RequestError (Some ErrInvalidID) 400 [])
   \<and> written (dispatch demo_deps (API ''develop'' demo_authenticator) ''/v1/restaurant/:id''
               [''id'' \<mapsto> ''12345''] (demo_request ''GET'' ''/v1/restaurant/12345'' None) demo_world) =
       [(400, PErrorResponse \<lparr> er_Error = ''ID is not in its proper form'', er_Fields = [] \<rparr>)]"
proof -
  let ?r = "demo_request ''GET'' ''/v1/restaurant/12345'' None"
  have b: "\<not> (\<lambda>s. length s = 36) ''12345''" by simp
  have h: "Method ?r = ''GET''" "Authorization ?r = Some (Bearer demo_token)"
          "uuidParse demo_deps = (\<lambda>s. length s = 36)" "param [''id'' \<mapsto> ''12345''] ''id'' = ''12345''"
          "written demo_world = []"
    by (simp_all add: demo_request_def demo_deps_def param_def demo_world_def)
  from Retrieve_malformed_id [where parse = "\<lambda>s. length s = 36" and rid = "''12345''" and db = demo_db
         and r = ?r and tok = demo_token and d = demo_deps and a = demo_authenticator
         and w = demo_world and claims = demo_claims and params = "[''id'' \<mapsto> ''12345'']"
         and build = "''develop''" and ctx = demo_ctx] h demo_token_valid b
  show ?thesis by simp
qed

section \<open>Deleting a restaurant\<close>

lemma Delete_ok:
  assumes "parse rid" and "db_fault db = None"
  shows "restaurant_Delete parse db rid =
           (None, db_apply (DeleteRestaurant rid) (db_sent (DeleteRestaurant rid) db))"
  using assms by (simp add: restaurant_Delete_def ExecContext_def)

text \<open>
  C8. For an id that parses as a UUID, when the database executes the \<open>DELETE\<close> without
  error, \<open>restaurant.Delete\<close> returns nil and the table has no row of that id afterwards,
  whether it had one before or not; there is no not-found error. So a
  \<open>DELETE /v1/restaurant/:id\<close> request that carries a valid bearer token, as the route
  requires, is answered with 204 and no data, also for an id that no restaurant has.
\<close>

theorem Delete_idempotent:
  assumes "parse rid" and "db_fault db = None"
  shows "fst (restaurant_Delete parse db rid) = None
       \<and> restaurant_table (snd (restaurant_Delete parse db rid)) =
           filter (\<lambda>x. ID x \<noteq> rid) (restaurant_table db)
       \<and> (Method r = ''DELETE'' \<and> Authorization r = Some (Bearer tok)
            \<and> ParseClaims (scheme d) a (clock w) tok = Inr claims
            \<and> uuidParse d = parse \<and> param params ''id'' = rid \<and> database w = db \<longrightarrow>
          written (dispatch d (API build a) ''/v1/restaurant/:id'' params r w) = written w @ [(204, PNil)]
          \<and> restaurant_table (database (dispatch d (API build a) ''/v1/restaurant/:id'' params r w)) =
              filter (\<lambda>x. ID x \<noteq> rid) (restaurant_table db))"
proof -
  note del = Delete_ok [where parse = parse and rid = rid, OF assms]
  have 1: "fst (restaurant_Delete parse db rid) = None
       \<and> restaurant_table (snd (restaurant_Delete parse db rid)) =
           filter (\<lambda>x. ID x \<noteq> rid) (restaurant_table db)"
    by (simp add: del)
  have 2: "written (dispatch d (API build a) ''/v1/restaurant/:id'' params r w) = written w @ [(204, PNil)]
          \<and> restaurant_table (database (dispatch d (API build a) ''/v1/restaurant/:id'' params r w)) =
              filter (\<lambda>x. ID x \<noteq> rid) (restaurant_table db)"
    if m: "Method r = ''DELETE''" and t: "Authorization r = Some (Bearer tok)"
      "ParseClaims (scheme d) a (clock w) tok = Inr claims"
      and p: "uuidParse d = parse" "param params ''id'' = rid" "database w = db"
  proof -
    let ?rt = "\<lparr> rt_method = ''DELETE'', rt_path = ''/v1/restaurant/:id'', rt_handler = RestaurantDelete,
                rt_mw = [Authenticate a] \<rparr>"
    let ?w2 = "(snd (new_values w))\<lparr> database := db_apply (DeleteRestaurant rid) (db_sent (DeleteRestaurant rid) db) \<rparr>"
    let ?w3 = "snd (Respond \<lparr> KeyValues = Some (cells_used w), AuthKey = Some claims,
                   Spans = [''handlers.Restaurant.Delete'', ''internal.mid.Logger''] \<rparr> PNil 204 ?w2)"
    have h: "handler_of d (rt_handler ?rt)
               \<lparr> KeyValues = Some (cells_used w), AuthKey = Some claims, Spans = [''internal.mid.Logger''] \<rparr>
               r params (snd (new_values w)) = (None, ?w3)"
      using p by (simp add: Restaurant_Delete_def del Let_def StartSpan_def Respond_def)
    have w3: "written ?w3 = written w @ [(204, PNil)]"
             "restaurant_table (database ?w3) = filter (\<lambda>x. ID x \<noteq> rid) (restaurant_table db)"
      by (simp_all add: Respond_def)
    from dispatch_bearer_ok [OF find_route_DELETE_id [OF m] _ t h] w3
    show ?thesis by simp
  qed
  from 1 2 show ?thesis by blast
qed

theorem Delete_idempotent_witness:
  "(\<lambda>s. length s = 36) ''9b468f90-1cf1-4377-b3fa-68b450d632a0''
   \<and> db_fault demo_db = None
   \<and> find (\<lambda>x. ID x = ''9b468f90-1cf1-4377-b3fa-68b450d632a0'') (restaurant_table demo_db) = None
   \<and> fst (restaurant_Delete (\<lambda>s. length s = 36) demo_db ''9b468f90-1cf1-4377-b3fa-68b450d632a0'') = None
   \<and> written (dispatch demo_deps (API ''develop'' demo_authenticator) ''/v1/restaurant/:id''
               [''id'' \<mapsto> ''9b468f90-1cf1-4377-b3fa-68b450d632a0'']
               (demo_request ''DELETE'' ''/v1/restaurant/9b468f90-1cf1-4377-b3fa-68b450d632a0'' None)
               demo_world) = [(204, PNil)]"
proof -
  let ?id = "''9b468f90-1cf1-4377-b3fa-68b450d632a0''"
  let ?r = "demo_request ''DELETE'' ''/v1/restaurant/9b468f90-1cf1-4377-b3fa-68b450d632a0'' None"
  have b: "(\<lambda>s. length s = 36) ?id" by simp
  have f: "db_fault demo_db = None" by (simp add: db_fault_def demo_db_def)
  have n: "find (\<lambda>x. ID x = ?id) (restaurant_table demo_db) = None"
    by (simp add: demo_db_def demo_restaurant_def)
  have h: "Method ?r = ''DELETE''" "Authorization ?r = Some (Bearer demo_token)"
          "uuidParse demo_deps = (\<lambda>s. length s = 36)" "param [''id'' \<mapsto> ?id] ''id'' = ?id"
          "written demo_world = []" "database demo_world = demo_db"
    by (simp_all add: demo_request_def demo_deps_def param_def demo_world_def)
  from Delete_idempotent [where parse = "\<lambda>s. length s = 36" and rid = ?id and db = demo_db
         and r = ?r and tok = demo_token and d = demo_deps and a = demo_authenticator
         and w = demo_world and claims = demo_claims and params = "[''id'' \<mapsto> ?id]"
         and build = "''develop''", OF b f] h demo_token_valid n f
  show ?thesis by simp
qed

section \<open>Validation of a new restaurant\<close>

lemma Decode_NewRestaurant_empty:
  assumes "Body r = Some (JObject [])"
  shows "Decode_NewRestaurant r =
           Inl (RequestError (Some (ErrorsNew ''field validation error'')) 400
                  [\<lparr> fe_Field = ''name'', fe_Error = ''name is a required field'' \<rparr>,
                   \<lparr> fe_Field = ''address'', fe_Error = ''address is a required field'' \<rparr>])"
  using assms
  by (simp add: Decode_NewRestaurant_def Decode_def unmarshal_NewRestaurant_def
      validate_NewRestaurant_def required_def)

text \<open>
  C6. A \<open>POST /v1/restaurant\<close> request that carries a valid bearer token and the body \<open>{}\<close>
  is answered with status 400 and the error response whose error is
  \<open>field validation error\<close> and whose fields are, as a set, the entry for \<open>name\<close> and the entry
  for \<open>address\<close>, each saying that the field is a required field; nothing is sent to the
  database.
\<close>

theorem Create_validation:
  assumes "Method r = ''POST''"
      and "Authorization r = Some (Bearer tok)"
      and "ParseClaims (scheme d) a (clock w) tok = Inr claims"
      and "Body r = Some (JObject [])"
  shows "\<exists>fs. written (dispatch d (API build a) ''/v1/restaurant'' params r w) =
                written w @ [(400, PErrorResponse \<lparr> er_Error = ''field validation error'', er_Fields = fs \<rparr>)]
            \<and> set fs = { \<lparr> fe_Field = ''name'', fe_Error = ''name is a required field'' \<rparr>,
                         \<lparr> fe_Field = ''address'', fe_Error = ''address is a required field'' \<rparr> }
            \<and> length fs = 2
            \<and> database (dispatch d (API build a) ''/v1/restaurant'' params r w) = database w"
proof -
  let ?rt = "\<lparr> rt_method = ''POST'', rt_path = ''/v1/restaurant'', rt_handler = RestaurantCreate,
              rt_mw = [Authenticate a] \<rparr>"
  let ?fs = "[\<lparr> fe_Field = ''name'', fe_Error = ''name is a required field'' \<rparr>,
              \<lparr> fe_Field = ''address'', fe_Error = ''address is a required field'' \<rparr>]"
  let ?err = "Wrapped (RequestError (Some (ErrorsNew ''field validation error'')) 400 ?fs)
                ''decoding new restaurant''"
  have h: "handler_of d (rt_handler ?rt)
             \<lparr> KeyValues = Some (cells_used w), AuthKey = Some claims, Spans = [''internal.mid.Logger''] \<rparr>
             r params (snd (new_values w)) = (Some ?err, snd (new_values w))"
    by (simp add: Restaurant_Create_def Let_def StartSpan_def Decode_NewRestaurant_empty [OF assms(4)])
  have c: "Cause ?err = RequestError (Some (ErrorsNew ''field validation error'')) 400 ?fs"
    by simp
  from dispatch_bearer_error [OF find_route_POST_restaurant [OF assms(1)] _ assms(2,3) h c]
  have "written (dispatch d (API build a) ''/v1/restaurant'' params r w) =
          written w @ [(400, PErrorResponse \<lparr> er_Error = ''field validation error'', er_Fields = ?fs \<rparr>)]
        \<and> database (dispatch d (API build a) ''/v1/restaurant'' params r w) = database w"
    by simp
  moreover have "set ?fs = { \<lparr> fe_Field = ''name'', fe_Error = ''name is a required field'' \<rparr>,
                         \<lparr> fe_Field = ''address'', fe_Error = ''address is a required field'' \<rparr> }"
    by simp
  moreover have "length ?fs = 2" by simp
  ultimately show ?thesis by blast
qed

theorem Create_validation_witness:
  "\<exists>fs. written (dispatch demo_deps (API ''develop'' demo_authenticator) ''/v1/restaurant'' Map.empty
                  (demo_request ''POST'' ''/v1/restaurant'' (Some (JObject []))) demo_world) =
           [(400, PErrorResponse \<lparr> er_Error = ''field validation error'', er_Fields = fs \<rparr>)]
       \<and> set fs = { \<lparr> fe_Field = ''name'', fe_Error = ''name is a required field'' \<rparr>,
                    \<lparr> fe_Field = ''address'', fe_Error = ''address is a required field'' \<rparr> }"
proof -
  let ?r = "demo_request ''POST'' ''/v1/restaurant'' (Some (JObject []))"
  have h: "Method ?r = ''POST''" "Authorization ?r = Some (Bearer demo_token)"
          "Body ?r = Some (JObject [])"
    by (simp_all add: demo_request_def)
  have w: "written demo_world = []" by (simp add: demo_world_def)
  from Create_validation [OF h(1) h(2) demo_token_valid h(3), of "''develop''" Map.empty] w
  show ?thesis by auto
qed

section \<open>Creating a menu\<close>

lemma Retrieve_menu_table:
  "menu_table (snd (restaurant_Retrieve parse db rid)) = menu_table db"
  by (simp add: Retrieve_cases split: option.split)

lemma Retrieve_found:
  assumes "restaurant_Retrieve parse db rid = (Inr r, db1)"
  shows "find (\<lambda>x. ID x = rid) (restaurant_table db) = Some r"
  using assms by (simp add: Retrieve_cases split: if_splits option.splits)

text \<open>
  C10, amended. Where the Claims of the request are those of a caller whose subject is not
  the owner of the stored restaurant that the path names, \<open>Menu.CreateMenu\<close> returns an
  error and creates no menu, whatever the roles of the caller, \<open>ADMIN\<close> included, and
  whatever the body. The error is the forbidden (403) request error when the body decodes
  to a \<open>NewMenu\<close> whose restaurant id is the one of the path and the restaurant is
  retrieved (the id parses, the database answers); a body that names another restaurant
  id gets \<open>ErrInvalidID\<close> itself instead.
\<close>

theorem CreateMenu_owner_restriction:
  assumes claims: "AuthKey ctx = Some claims"
      and stored: "find (\<lambda>x. ID x = param params ''restaurantId'') (restaurant_table (database w)) = Some rest"
      and owner: "OwnerUserID rest \<noteq> Subject claims"
  shows "fst (Menu_CreateMenu parse decode ctx r params w) \<noteq> None
       \<and> menu_table (database (snd (Menu_CreateMenu parse decode ctx r params w))) = menu_table (database w)
       \<and> (KeyValues ctx \<noteq> None \<and> decode r = Inr nm \<and> nm_RestaurantID nm = param params ''restaurantId''
            \<and> parse (param params ''restaurantId'') \<and> db_fault (database w) = None \<longrightarrow>
          fst (Menu_CreateMenu parse decode ctx r params w) = Some (RequestError None 403 []))
       \<and> (KeyValues ctx \<noteq> None \<and> decode r = Inr nm \<and> nm_RestaurantID nm \<noteq> param params ''restaurantId'' \<longrightarrow>
          Menu_CreateMenu parse decode ctx r params w = (Some ErrInvalidID, w))"
proof -
  let ?rid = "param params ''restaurantId''"
  let ?res = "restaurant_Retrieve parse (database w) ?rid"
  have ret: "r' = rest" if "fst ?res = Inr r'" for r'
  proof -
    from that have "?res = (Inr r', snd ?res)"
      by (simp add: prod_eq_iff)
    from Retrieve_found [OF this] stored show ?thesis
      by simp
  qed
  have mt: "menu_table (snd ?res) = menu_table (database w)"
    by (rule Retrieve_menu_table)
  have body: "Menu_CreateMenu parse decode ctx r params w =
     (case KeyValues ctx of
        None \<Rightarrow> (Some (ShutdownError ''web value missing from context''), w)
      | Some p \<Rightarrow>
     (case decode r of
        Inl err \<Rightarrow> (Some (Wrapped err ''decoding new menu''), w)
      | Inr nm \<Rightarrow>
     (if nm_RestaurantID nm \<noteq> ?rid then (Some ErrInvalidID, w)
      else
     (case fst ?res of
        Inl err \<Rightarrow>
             (if err = ErrInvalidID then (Some (RequestError (Some err) 400 []), w\<lparr> database := snd ?res \<rparr>)
              else if err = ErrNotFound then (Some (RequestError (Some err) 404 []), w\<lparr> database := snd ?res \<rparr>)
              else if err = ErrForbidden then (Some (RequestError (Some err) 403 []), w\<lparr> database := snd ?res \<rparr>)
              else (Some (Wrapped err (''retrieving restaurant id: '' @ ?rid)),
                    w\<lparr> database := snd ?res \<rparr>))
      | Inr restaurantRes \<Rightarrow> (Some (RequestError None 403 []), w\<lparr> database := snd ?res \<rparr>)))))"
  proof (cases "fst ?res")
    case (Inl err)
    then show ?thesis
      using claims
      by (simp add: Menu_CreateMenu_def Let_def StartSpan_def case_prod_beta
               split: option.split sum.split)
  next
    case (Inr r')
    with ret have "fst ?res = Inr rest" by simp
    then show ?thesis
      using claims owner
      by (simp add: Menu_CreateMenu_def Let_def StartSpan_def case_prod_beta
               split: option.split sum.split)
  qed
  have 1: "fst (Menu_CreateMenu parse decode ctx r params w) \<noteq> None"
    by (simp add: body split: option.split sum.split)
  have 2: "menu_table (database (snd (Menu_CreateMenu parse decode ctx r params w))) = menu_table (database w)"
    by (simp add: body mt split: option.split sum.split)
  have 3: "fst (Menu_CreateMenu parse decode ctx r params w) = Some (RequestError None 403 [])"
    if "KeyValues ctx \<noteq> None" "decode r = Inr nm" "nm_RestaurantID nm = ?rid" "parse ?rid"
       "db_fault (database w) = None"
  proof -
    have "fst ?res = Inr rest"
      using that(4,5) stored by (simp add: Retrieve_cases)
    with that(1,2,3) show ?thesis by (auto simp: body)
  qed
  have 4: "Menu_CreateMenu parse decode ctx r params w = (Some ErrInvalidID, w)"
    if "KeyValues ctx \<noteq> None" "decode r = Inr nm" "nm_RestaurantID nm \<noteq> ?rid"
    using that by (auto simp: body)
  from 1 2 3 4 show ?thesis by blast
qed


lemma demo_menu_request:
  "AuthKey demo_ctx = Some demo_claims"
  "find (\<lambda>x. ID x = param [''restaurantId'' \<mapsto> ID demo_restaurant] ''restaurantId'')
     (restaurant_table (database demo_world)) = Some demo_restaurant"
  "OwnerUserID demo_restaurant \<noteq> Subject demo_claims"
  "''ADMIN'' \<in> set (Roles demo_claims)"
  by (simp_all add: demo_ctx_def param_def demo_world_def demo_db_def demo_restaurant_def demo_claims_def)

text \<open>
  C10, as stated, fails: the caller is not the owner of the restaurant of the path, and
  the body names another restaurant id; \<open>Menu.CreateMenu\<close> returns \<open>ErrInvalidID\<close> itself, which
  is not a request error and carries no status 403.
\<close>

theorem CreateMenu_owner_restriction_counterexample:
  "AuthKey demo_ctx = Some demo_claims
   \<and> find (\<lambda>x. ID x = param [''restaurantId'' \<mapsto> ID demo_restaurant] ''restaurantId'')
        (restaurant_table (database demo_world)) = Some demo_restaurant
   \<and> OwnerUserID demo_restaurant \<noteq> Subject demo_claims
   \<and> Menu_CreateMenu (\<lambda>s. length s = 36)
        (\<lambda>r. Inr (demo_newmenu ''9b468f90-1cf1-4377-b3fa-68b450d632a0''))
        demo_ctx
        (demo_request ''POST'' ''/v1/restaurant/a224a8d6-3f9e-4b11-9900-e81a25d80702/menu'' None)
        [''restaurantId'' \<mapsto> ID demo_restaurant] demo_world
      = (Some ErrInvalidID, demo_world)"
proof -
  have "Menu_CreateMenu (\<lambda>s. length s = 36)
        (\<lambda>r. Inr (demo_newmenu ''9b468f90-1cf1-4377-b3fa-68b450d632a0''))
        demo_ctx
        (demo_request ''POST'' ''/v1/restaurant/a224a8d6-3f9e-4b11-9900-e81a25d80702/menu'' None)
        [''restaurantId'' \<mapsto> ID demo_restaurant] demo_world
      = (Some ErrInvalidID, demo_world)"
    by (simp add: Menu_CreateMenu_def Let_def StartSpan_def demo_ctx_def param_def demo_newmenu_def
        demo_restaurant_def)
  with demo_menu_request(1-3) show ?thesis by blast
qed

theorem CreateMenu_owner_restriction_witness:
  "AuthKey demo_ctx = Some demo_claims
   \<and> ''ADMIN'' \<in> set (Roles demo_claims)
   \<and> OwnerUserID demo_restaurant \<noteq> Subject demo_claims
   \<and> fst (Menu_CreateMenu (\<lambda>s. length s = 36) (decodeNewMenu demo_deps) demo_ctx
        (demo_request ''POST'' ''/v1/restaurant/a224a8d6-3f9e-4b11-9900-e81a25d80702/menu'' None)
        [''restaurantId'' \<mapsto> ID demo_restaurant] demo_world)
      = Some (RequestError None 403 [])
   \<and> menu_table (database (snd (Menu_CreateMenu (\<lambda>s. length s = 36) (decodeNewMenu demo_deps) demo_ctx
        (demo_request ''POST'' ''/v1/restaurant/a224a8d6-3f9e-4b11-9900-e81a25d80702/menu'' None)
        [''restaurantId'' \<mapsto> ID demo_restaurant] demo_world))) = []"
proof -
  let ?r = "demo_request ''POST'' ''/v1/restaurant/a224a8d6-3f9e-4b11-9900-e81a25d80702/menu'' None"
  let ?ps = "[''restaurantId'' \<mapsto> ID demo_restaurant]"
  have h: "KeyValues demo_ctx \<noteq> None"
          "decodeNewMenu demo_deps ?r = Inr (demo_newmenu (ID demo_restaurant))"
          "nm_RestaurantID (demo_newmenu (ID demo_restaurant)) = param ?ps ''restaurantId''"
          "(\<lambda>s. length s = 36) (param ?ps ''restaurantId'')"
          "db_fault (database demo_world) = None"
          "menu_table (database demo_world) = []"
    by (simp_all add: demo_ctx_def demo_deps_def demo_newmenu_def param_def demo_restaurant_def
        db_fault_def demo_world_def demo_db_def)
  from CreateMenu_owner_restriction [where parse = "\<lambda>s. length s = 36" and decode = "decodeNewMenu demo_deps"
         and r = ?r and nm = "demo_newmenu (ID demo_restaurant)",
         OF demo_menu_request(1) demo_menu_request(2) demo_menu_request(3)] h demo_menu_request
  show ?thesis by simp
qed

end
